theory Spec2Isabelle
  imports Main "HOL-Library.Word"
begin

section \<open>JavaScript values\<close>

text \<open>
  A JavaScript string is a sequence of UTF-16 code units. String literals of the
  source are ASCII and are written with \<open>lit\<close>.
\<close>

type_synonym js_string = "16 word list"

definition lit :: "string \<Rightarrow> js_string" where
  "lit s = map of_char s"

text \<open>
  \<open>String.prototype.trim\<close> removes WhiteSpace and LineTerminator code points from
  both ends (ECMAScript: TAB, VT, FF, ZWNBSP, the Unicode space separators; LF, CR,
  LS, PS).
\<close>

definition is_white_space :: "16 word \<Rightarrow> bool" where
  "is_white_space c \<longleftrightarrow>
     c \<in> set [0x9, 0xA, 0xB, 0xC, 0xD, 0x20, 0xA0, 0x1680, 0x2028, 0x2029,
              0x202F, 0x205F, 0x3000, 0xFEFF]
     \<or> (0x2000 \<le> c \<and> c \<le> 0x200A)"

definition trim :: "js_string \<Rightarrow> js_string" where
  "trim s = rev (dropWhile is_white_space (rev (dropWhile is_white_space s)))"

text \<open>
  Decimal text of a natural number, as a template literal prints an array index
  plus one (an integer far below \<open>10^21\<close>, so no exponent is printed).
\<close>

fun number_to_string :: "nat \<Rightarrow> js_string" where
  "number_to_string n =
     (if n < 10 then [48 + of_nat n]
      else number_to_string (n div 10) @ [48 + of_nat (n mod 10)])"

text \<open>
  The value \<open>JSON.parse\<close> returns. A number is kept as the 64 bits of its IEEE-754
  double; an object as its own properties (keys distinct, as in a parsed object).
\<close>

datatype json =
    JNull
  | JBool bool
  | JNum "64 word"
  | JStr js_string
  | JArr "json list"
  | JObj "(js_string \<times> json) list"

definition is_zero :: "64 word \<Rightarrow> bool" where
  "is_zero n \<longleftrightarrow> n = 0 \<or> n = 0x8000000000000000"

definition is_nan :: "64 word \<Rightarrow> bool" where
  "is_nan n \<longleftrightarrow>
     and n 0x7FF0000000000000 = 0x7FF0000000000000 \<and> and n 0x000FFFFFFFFFFFFF \<noteq> 0"

text \<open>ToBoolean: what \<open>!v\<close>, \<open>v || w\<close> and \<open>if (v)\<close> test.\<close>

fun truthy :: "json \<Rightarrow> bool" where
  "truthy JNull = False"
| "truthy (JBool b) = b"
| "truthy (JNum n) = (\<not> is_zero n \<and> \<not> is_nan n)"
| "truthy (JStr s) = (s \<noteq> [])"
| "truthy (JArr xs) = True"
| "truthy (JObj kvs) = True"

datatype js_error = TypeError | SyntaxError | Error js_string

text \<open>
  \<open>responseJson.questions\<close>: reading a property of \<open>null\<close> throws a TypeError; a
  boolean, number, string or array has no property of that name (\<open>undefined\<close>, here
  \<open>None\<close>); an object yields its own property or \<open>undefined\<close>.
\<close>

fun get_questions :: "json \<Rightarrow> js_error + json option" where
  "get_questions JNull = Inl TypeError"
| "get_questions (JObj kvs) = Inr (map_of kvs (lit ''questions''))"
| "get_questions v = Inr None"

text \<open>
  \<open>questions.length === 0\<close> for a truthy value: the length of an array or string,
  an object's own \<open>length\<close> property, \<open>undefined\<close> otherwise. Strict equality with
  \<open>0\<close> holds for the numbers \<open>+0\<close> and \<open>-0\<close> only.
\<close>

fun length_is_zero :: "json \<Rightarrow> bool" where
  "length_is_zero (JArr xs) = (length xs = 0)"
| "length_is_zero (JStr s) = (length s = 0)"
| "length_is_zero (JObj kvs) =
     (case map_of kvs (lit ''length'') of Some (JNum n) \<Rightarrow> is_zero n | _ \<Rightarrow> False)"
| "length_is_zero v = False"

text \<open>
  An array of strings that may have holes (\<open>a[i]\<close> reads \<open>undefined\<close> at a hole or
  past the end; \<open>a[i] = v\<close> past the end extends the array with holes).
\<close>

type_synonym js_array = "js_string option list"

definition array_get :: "js_array \<Rightarrow> nat \<Rightarrow> js_string option" where
  "array_get a i = (if i < length a then a ! i else None)"

definition array_set :: "js_array \<Rightarrow> nat \<Rightarrow> js_string \<Rightarrow> js_array" where
  "array_set a i v =
     (if i < length a then a[i := Some v]
      else a @ replicate (i - length a) None @ [Some v])"

text \<open>
  An object keyed by question index, \<open>{ [questionIndex: number]: string[] }\<close>: its own
  properties, in the order \<open>Object.values\<close> and \<open>JSON.stringify\<close> visit integer keys
  (ascending).
\<close>

type_synonym js_index_object = "(nat \<times> js_string list) list"

definition object_get :: "js_index_object \<Rightarrow> nat \<Rightarrow> js_string list option" where
  "object_get ob i = map_of ob i"

fun object_set :: "js_index_object \<Rightarrow> nat \<Rightarrow> js_string list \<Rightarrow> js_index_object" where
  "object_set [] i v = [(i, v)]"
| "object_set ((k, w) # ob) i v =
     (if i = k then (k, v) # ob
      else if i < k then (i, v) # (k, w) # ob
      else (k, w) # object_set ob i v)"

definition object_values :: "js_index_object \<Rightarrow> js_string list list" where
  "object_values ob = map snd ob"

section \<open>types.ts\<close>

datatype AppState = HOME | INTERVIEW | REPORT | LOADING

record InterviewConfig =
  role :: js_string
  difficulty :: js_string

text \<open>
  \<open>questions\<close> and \<open>evaluation\<close> hold whatever \<open>JSON.parse\<close> returned: the source
  assigns the parsed value at the declared type without a check. An optional field
  that is absent is \<open>None\<close>.
\<close>

record InterviewSession =
  config :: InterviewConfig
  questions :: json
  answers :: js_array
  snapshots :: js_index_object
  malpracticeLogs :: "js_index_object option"
  evaluation :: "json option"

section \<open>components/Home.tsx\<close>

record Home =
  home_role :: js_string
  home_difficulty :: js_string

definition Home_initial :: Home where
  "Home_initial =
     \<lparr>home_role = lit ''Software Engineer'', home_difficulty = lit ''Medium''\<rparr>"

definition setRole :: "js_string \<Rightarrow> Home \<Rightarrow> Home" where
  "setRole r h = h\<lparr>home_role := r\<rparr>"

definition setDifficulty :: "js_string \<Rightarrow> Home \<Rightarrow> Home" where
  "setDifficulty d h = h\<lparr>home_difficulty := d\<rparr>"

text \<open>\<open>handleSubmit\<close>: the configuration passed to \<open>onStartInterview\<close>.\<close>

definition handleSubmit :: "Home \<Rightarrow> InterviewConfig" where
  "handleSubmit h = \<lparr>role = home_role h, difficulty = home_difficulty h\<rparr>"

section \<open>App.tsx\<close>

record App =
  appState :: AppState
  session :: "InterviewSession option"
  loadingMessage :: js_string
  error :: "js_string option"

definition App_initial :: App where
  "App_initial = \<lparr>appState = HOME, session = None, loadingMessage = [], error = None\<rparr>"

text \<open>Requests to the generative-language API.\<close>

datatype part =
    Text js_string
  | InlineData (mimeType: js_string) (data: js_string)

datatype contents = ContentString js_string | ContentParts "part list"

datatype schema =
    OBJECT "(string \<times> schema) list"
  | ARRAY schema
  | STRING
  | NUMBER
  | BOOLEAN

record request =
  request_model :: js_string
  request_contents :: contents
  request_systemInstruction :: "js_string option"
  request_responseMimeType :: js_string
  request_responseSchema :: schema

text \<open>
  What awaiting \<open>generateContent\<close> and parsing \<open>response.text\<close> comes to: the SDK call
  throws (or the client cannot be built), \<open>JSON.parse\<close> throws, or it returns a value.
\<close>

datatype api_outcome = SdkThrows | TextUnparsable | TextParses json

subsection \<open>startInterview\<close>

definition questions_prompt :: "InterviewConfig \<Rightarrow> js_string" where
  "questions_prompt c =
     lit ''Generate 5 interview questions for a '' @ difficulty c @ lit '' '' @ role c
       @ lit '' position.''"

definition startInterview_request :: "InterviewConfig \<Rightarrow> request" where
  "startInterview_request c =
     \<lparr>request_model = lit ''gemini-2.5-flash'',
      request_contents = ContentString (questions_prompt c),
      request_systemInstruction = None,
      request_responseMimeType = lit ''application/json'',
      request_responseSchema = OBJECT [(''questions'', ARRAY STRING)]\<rparr>"

text \<open>The statements before the \<open>await\<close>.\<close>

definition startInterview_begin :: "App \<Rightarrow> App" where
  "startInterview_begin app =
     app\<lparr>appState := LOADING,
         loadingMessage := lit ''Generating your interview questions...'',
         error := None\<rparr>"

definition startInterview_catch :: "App \<Rightarrow> App" where
  "startInterview_catch app =
     app\<lparr>error := Some (lit
           ''Could not generate questions. Please check your API key and try again.''),
         appState := HOME\<rparr>"

text \<open>
  The statements after the \<open>await\<close>, inside the \<open>try\<close>, and the \<open>catch\<close>. The test
  \<open>!questions || questions.length === 0\<close> throws for \<open>undefined\<close> (falsy), for a falsy
  value, and for a truthy value whose length is \<open>0\<close>.
\<close>

definition startInterview_resume :: "InterviewConfig \<Rightarrow> api_outcome \<Rightarrow> App \<Rightarrow> App" where
  "startInterview_resume c outcome app =
     (case outcome of
        SdkThrows \<Rightarrow> startInterview_catch app
      | TextUnparsable \<Rightarrow> startInterview_catch app
      | TextParses responseJson \<Rightarrow>
          (case get_questions responseJson of
             Inl e \<Rightarrow> startInterview_catch app
           | Inr None \<Rightarrow> startInterview_catch app
           | Inr (Some qs) \<Rightarrow>
               if \<not> truthy qs \<or> length_is_zero qs then startInterview_catch app
               else app\<lparr>session := Some
                          \<lparr>config = c, questions = qs, answers = [], snapshots = [],
                           malpracticeLogs = Some [], evaluation = None\<rparr>,
                        appState := INTERVIEW\<rparr>))"

definition startInterview :: "InterviewConfig \<Rightarrow> api_outcome \<Rightarrow> App \<Rightarrow> App" where
  "startInterview c outcome app = startInterview_resume c outcome (startInterview_begin app)"

subsection \<open>handleInterviewComplete\<close>

text \<open>
  Two operations of the platform are parameters: \<open>JSON.stringify(v, null, 2)\<close> on the
  malpractice logs, and the conversion to string a template literal applies to a value
  that is not a string (it can throw).
\<close>

record platform =
  JSON_stringify :: "js_index_object \<Rightarrow> js_string"
  ToString :: "json \<Rightarrow> js_error + js_string"

definition malpracticeLogText :: "platform \<Rightarrow> js_index_object \<Rightarrow> js_string" where
  "malpracticeLogText pf logs =
     (if list_ex (\<lambda>l. length l > 0) (object_values logs)
      then lit ''\<newline>\<newline>Additionally, analyze the following malpractice logs. The candidate was alerted in real-time. Factor any detected malpractice into the overall evaluation, particularly in the 'Weaknesses' and 'Overall Score' sections.\<newline>Malpractice Logs:\<newline>''
           @ JSON_stringify pf logs
      else [])"

text \<open>The template of \<open>systemInstruction\<close> up to \<open>${malpracticeLogText}\<close>.\<close>

definition evaluation_instruction :: "InterviewConfig \<Rightarrow> js_string" where
  \<open>evaluation_instruction c =
     lit ''You are an expert interviewer evaluating a candidate for a '' @ difficulty c
       @ lit '' '' @ role c
       @ lit '' role. Analyze the following questions, the candidate's transcribed answers, and snapshots of their body language. Provide a comprehensive evaluation in JSON format.\<newline>''
       @ lit ''\<newline>''
       @ lit ''        The JSON object should have the following structure:\<newline>''
       @ lit ''        - overallScore: A number from 0 to 100.\<newline>''
       @ lit ''        - criteria: An array of objects, each with 'name' (e.g., "Clarity", "Technical Depth", "Problem Solving", "Communication", "Body Language"), 'score' (0-5), 'maxScore' (always 5), and 'reasoning' (a brief justification for the score).\<newline>''
       @ lit ''        - strengths: An array of strings highlighting what the candidate did well.\<newline>''
       @ lit ''        - weaknesses: An array of strings pointing out areas of concern.\<newline>''
       @ lit ''        - improvements: An array of strings with actionable advice.\<newline>''
       @ lit ''        - bodyLanguageFeedback: A paragraph summarizing their non-verbal cues from the images.''\<close>

definition systemInstruction :: "platform \<Rightarrow> InterviewConfig \<Rightarrow> js_index_object \<Rightarrow> js_string" where
  "systemInstruction pf c logs = evaluation_instruction c @ malpracticeLogText pf logs"

text \<open>\<open>${question}\<close>: a string as it is, any other value through the platform.\<close>

definition question_text :: "platform \<Rightarrow> json \<Rightarrow> js_error + js_string" where
  "question_text pf q = (case q of JStr t \<Rightarrow> Inr t | _ \<Rightarrow> ToString pf q)"

text \<open>
  The parts one iteration of \<open>session.questions.forEach\<close> pushes, for the question
  text \<open>t\<close> at \<open>index\<close>. \<open>answers[index] || '(No answer provided)'\<close> takes the
  placeholder for \<open>undefined\<close> and for the empty string; \<open>snapshots[index]?.length > 0\<close>
  is false for a missing list.
\<close>

definition question_parts :: "js_array \<Rightarrow> js_index_object \<Rightarrow> nat \<Rightarrow> js_string \<Rightarrow> part list" where
  \<open>question_parts ans snaps index t =
     [Text (lit ''\<newline>--- Question '' @ number_to_string (index + 1) @ lit '': '' @ t
              @ lit '' ---\<newline>''),
      Text (lit ''Candidate's Answer: "''
              @ (case array_get ans index of
                   None \<Rightarrow> lit ''(No answer provided)''
                 | Some a \<Rightarrow> if a = [] then lit ''(No answer provided)'' else a)
              @ lit ''"\<newline>''),
      Text (lit ''Body Language Snapshots during answer:\<newline>'')]
     @ (case object_get snaps index of
          None \<Rightarrow> [Text (lit ''(No snapshots available)\<newline>'')]
        | Some images \<Rightarrow>
            if length images > 0
            then map (\<lambda>base64Image. InlineData (lit ''image/jpeg'') base64Image) images
            else [Text (lit ''(No snapshots available)\<newline>'')])\<close>

text \<open>
  \<open>forEach\<close> over the array from \<open>index\<close> on, pushing onto \<open>parts\<close>; a throw of the
  string conversion ends it.
\<close>

fun forEach_question ::
  "platform \<Rightarrow> js_array \<Rightarrow> js_index_object \<Rightarrow> nat \<Rightarrow> json list \<Rightarrow> part list
     \<Rightarrow> js_error + part list" where
  "forEach_question pf ans snaps index [] parts = Inr parts"
| "forEach_question pf ans snaps index (q # qs) parts =
     (case question_text pf q of
        Inl e \<Rightarrow> Inl e
      | Inr t \<Rightarrow>
          forEach_question pf ans snaps (index + 1) qs (parts @ question_parts ans snaps index t))"

text \<open>
  \<open>parts\<close> as built before the \<open>try\<close>. Only an array has \<open>forEach\<close>; on any other
  value the call throws a TypeError.
\<close>

definition evaluation_parts ::
  "platform \<Rightarrow> InterviewSession \<Rightarrow> js_array \<Rightarrow> js_index_object \<Rightarrow> js_error + part list" where
  "evaluation_parts pf s ans snaps =
     (case questions s of
        JArr qs \<Rightarrow> forEach_question pf ans snaps 0 qs [Text (lit ''Begin Evaluation:\<newline>'')]
      | _ \<Rightarrow> Inl TypeError)"

definition evaluation_schema :: schema where
  "evaluation_schema =
     OBJECT [(''overallScore'', NUMBER),
             (''criteria'', ARRAY (OBJECT [(''name'', STRING), (''score'', NUMBER),
                                           (''maxScore'', NUMBER), (''reasoning'', STRING)])),
             (''strengths'', ARRAY STRING),
             (''weaknesses'', ARRAY STRING),
             (''improvements'', ARRAY STRING),
             (''bodyLanguageFeedback'', STRING)]"

definition handleInterviewComplete_request ::
  "platform \<Rightarrow> InterviewSession \<Rightarrow> js_array \<Rightarrow> js_index_object \<Rightarrow> js_index_object
     \<Rightarrow> js_error + request" where
  "handleInterviewComplete_request pf s ans snaps logs =
     (case evaluation_parts pf s ans snaps of
        Inl e \<Rightarrow> Inl e
      | Inr parts \<Rightarrow> Inr
          \<lparr>request_model = lit ''gemini-2.5-flash'',
           request_contents = ContentParts parts,
           request_systemInstruction = Some (systemInstruction pf (config s) logs),
           request_responseMimeType = lit ''application/json'',
           request_responseSchema = evaluation_schema\<rparr>)"

definition handleInterviewComplete_begin :: "App \<Rightarrow> App" where
  "handleInterviewComplete_begin app =
     app\<lparr>appState := LOADING,
         loadingMessage := lit ''Evaluating your performance... This may take a moment.'',
         error := None\<rparr>"

text \<open>
  The \<open>try\<close> and its \<open>catch\<close>; \<open>s\<close> is the session the callback closed over, spread
  into the new one.
\<close>

definition handleInterviewComplete_resume ::
  "InterviewSession \<Rightarrow> js_array \<Rightarrow> js_index_object \<Rightarrow> js_index_object \<Rightarrow> api_outcome
     \<Rightarrow> App \<Rightarrow> App" where
  "handleInterviewComplete_resume s ans snaps logs outcome app =
     (case outcome of
        TextParses evaluationResult \<Rightarrow>
          app\<lparr>session := Some (s\<lparr>answers := ans, snapshots := snaps,
                                  malpracticeLogs := Some logs,
                                  evaluation := Some evaluationResult\<rparr>),
              appState := REPORT\<rparr>
      | _ \<Rightarrow>
          app\<lparr>error := Some (lit
                ''An error occurred during evaluation. Please try another interview.''),
              appState := HOME\<rparr>)"

text \<open>
  The whole callback. Without a session it does nothing. A throw while \<open>parts\<close> is
  built is outside the \<open>try\<close>: the callback ends there, after the three state updates,
  and no request is sent.
\<close>

definition handleInterviewComplete ::
  "platform \<Rightarrow> js_array \<Rightarrow> js_index_object \<Rightarrow> js_index_object \<Rightarrow> api_outcome \<Rightarrow> App \<Rightarrow> App" where
  "handleInterviewComplete pf ans snaps logs outcome app =
     (case session app of
        None \<Rightarrow> app
      | Some s \<Rightarrow>
          (case handleInterviewComplete_request pf s ans snaps logs of
             Inl e \<Rightarrow> handleInterviewComplete_begin app
           | Inr req \<Rightarrow>
               handleInterviewComplete_resume s ans snaps logs outcome
                 (handleInterviewComplete_begin app)))"

text \<open>The request the callback sends, if it sends one.\<close>

definition handleInterviewComplete_sent ::
  "platform \<Rightarrow> js_array \<Rightarrow> js_index_object \<Rightarrow> js_index_object \<Rightarrow> App \<Rightarrow> request option" where
  "handleInterviewComplete_sent pf ans snaps logs app =
     (case session app of
        None \<Rightarrow> None
      | Some s \<Rightarrow>
          (case handleInterviewComplete_request pf s ans snaps logs of
             Inl e \<Rightarrow> None
           | Inr req \<Rightarrow> Some req))"

subsection \<open>handleTryAgain and renderContent\<close>

definition handleTryAgain :: "App \<Rightarrow> App" where
  "handleTryAgain app = app\<lparr>session := None, appState := HOME, error := None\<rparr>"

text \<open>
  What \<open>renderContent\<close> returns: the Home screen with its \<open>error\<close> prop, the loading
  indicator with the loading message, the Interview screen with its questions, or the
  Report screen with its report. \<open>session?.questions\<close> and \<open>session?.evaluation\<close> are
  tests for a truthy value. The \<open>default\<close> branch of the \<open>switch\<close> has no value of
  \<open>AppState\<close> left to take.
\<close>

datatype view =
    HomeView "js_string option"
  | LoadingView js_string
  | InterviewView json
  | ReportView json

definition renderContent :: "App \<Rightarrow> view" where
  "renderContent app =
     (case appState app of
        HOME \<Rightarrow> HomeView (error app)
      | LOADING \<Rightarrow> LoadingView (loadingMessage app)
      | INTERVIEW \<Rightarrow>
          (case session app of
             None \<Rightarrow> HomeView (Some (lit ''An unexpected error occurred.''))
           | Some s \<Rightarrow>
               if truthy (questions s) then InterviewView (questions s)
               else HomeView (Some (lit ''An unexpected error occurred.'')))
      | REPORT \<Rightarrow>
          (case session app of
             None \<Rightarrow> HomeView (Some (lit ''Failed to load the report.''))
           | Some s \<Rightarrow>
               (case evaluation s of
                  None \<Rightarrow> HomeView (Some (lit ''Failed to load the report.''))
                | Some report \<Rightarrow>
                    if truthy report then ReportView report
                    else HomeView (Some (lit ''Failed to load the report.'')))))"

section \<open>components/Interview.tsx\<close>

text \<open>
  The browser's interval timers. A callback is the closure \<open>setInterval\<close> was given:
  \<open>captureSnapshot\<close> or \<open>analyzeFrameForMalpractice\<close> of one render, which fixes the
  \<open>currentQuestionIndex\<close> it uses. Handles are positive and never reused.
\<close>

datatype timer_callback = CaptureSnapshot nat | AnalyzeFrame nat

record interval =
  callback :: timer_callback
  delay :: nat

record SpeechRecognitionResult =
  isFinal :: bool
  result_transcript :: js_string

text \<open>
  The component's state and refs, then what it holds of its environment: the
  recogniser behind \<open>recognitionRef\<close> (\<open>None\<close> where speech recognition is unsupported,
  else whether it is started), the active intervals, the next timer handle, and the
  \<open>currentQuestionIndex\<close> of every \<open>handleNextQuestion\<close> call suspended at its \<open>await\<close>.
\<close>

record Interview =
  currentQuestionIndex :: nat
  transcript :: js_string
  isRecording :: bool
  isProcessing :: bool
  interviewerStatus :: js_string
  malpracticeAlert :: "js_string option"
  answersRef :: js_array
  snapshotsRef :: js_index_object
  malpracticeLogsRef :: js_index_object
  snapshotIntervalRef :: "nat option"
  malpracticeCheckIntervalRef :: "nat option"
  recognitionRef :: "bool option"
  intervals :: "(nat \<times> interval) list"
  nextHandle :: nat
  suspended :: "nat list"

definition Interview_initial :: "bool \<Rightarrow> Interview" where
  "Interview_initial isSpeechRecognitionSupported =
     \<lparr>currentQuestionIndex = 0, transcript = [], isRecording = False, isProcessing = False,
      interviewerStatus = lit ''Ready for your answer.'', malpracticeAlert = None,
      answersRef = [], snapshotsRef = [], malpracticeLogsRef = [],
      snapshotIntervalRef = None, malpracticeCheckIntervalRef = None,
      recognitionRef = (if isSpeechRecognitionSupported then Some False else None),
      intervals = [], nextHandle = 1, suspended = []\<rparr>"

definition setInterval :: "timer_callback \<Rightarrow> nat \<Rightarrow> Interview \<Rightarrow> Interview" where
  "setInterval f ms s =
     s\<lparr>intervals := intervals s @ [(nextHandle s, \<lparr>callback = f, delay = ms\<rparr>)],
       nextHandle := nextHandle s + 1\<rparr>"

definition clearInterval :: "nat \<Rightarrow> Interview \<Rightarrow> Interview" where
  "clearInterval h s = s\<lparr>intervals := filter (\<lambda>(k, iv). k \<noteq> h) (intervals s)\<rparr>"

text \<open>\<open>if (ref.current) clearInterval(ref.current)\<close>: \<open>null\<close> and \<open>0\<close> are falsy.\<close>

definition clear_if_set :: "nat option \<Rightarrow> Interview \<Rightarrow> Interview" where
  "clear_if_set r s =
     (case r of None \<Rightarrow> s | Some h \<Rightarrow> if h \<noteq> 0 then clearInterval h s else s)"

text \<open>\<open>recognitionRef.current?.start()\<close> and \<open>?.stop()\<close>.\<close>

definition recognition_start :: "Interview \<Rightarrow> Interview" where
  "recognition_start s = s\<lparr>recognitionRef := map_option (\<lambda>started. True) (recognitionRef s)\<rparr>"

definition recognition_stop :: "Interview \<Rightarrow> Interview" where
  "recognition_stop s = s\<lparr>recognitionRef := map_option (\<lambda>started. False) (recognitionRef s)\<rparr>"

text \<open>
  \<open>recognition.onresult\<close>: the loop over \<open>event.results\<close>, with \<open>finalTranscript\<close> and
  \<open>interimTranscript\<close> as accumulators, then the two assignments. Every run of the
  effect makes a recogniser of its own, and its handler closes over the
  \<open>currentQuestionIndex\<close> of that render: \<open>index\<close> below. The cleanup only stops the
  previous recogniser, whose handler stays attached, so a result it still delivers is
  stored at its own, earlier index; \<open>setTranscript\<close> acts on the state as it is.
\<close>

fun onresult_loop ::
  "SpeechRecognitionResult list \<Rightarrow> js_string \<Rightarrow> js_string \<Rightarrow> js_string \<times> js_string" where
  "onresult_loop [] finalTranscript interimTranscript = (finalTranscript, interimTranscript)"
| "onresult_loop (r # rs) finalTranscript interimTranscript =
     (if isFinal r
      then onresult_loop rs (finalTranscript @ result_transcript r @ lit '' '') interimTranscript
      else onresult_loop rs finalTranscript (result_transcript r))"

definition onresult :: "nat \<Rightarrow> SpeechRecognitionResult list \<Rightarrow> Interview \<Rightarrow> Interview" where
  "onresult index results s =
     (case onresult_loop results [] [] of
        (finalTranscript, interimTranscript) \<Rightarrow>
          s\<lparr>answersRef := array_set (answersRef s) index (trim finalTranscript),
            transcript := trim finalTranscript @ lit '' '' @ interimTranscript\<rparr>)"

definition onerror :: "js_string \<Rightarrow> Interview \<Rightarrow> Interview" where
  "onerror err s = (if err = lit ''no-speech'' then s else s\<lparr>isRecording := False\<rparr>)"

text \<open>
  \<open>captureSnapshot\<close> of the render at question \<open>index\<close>. \<open>capture\<close> is the base64 text
  taken from the canvas, or \<open>None\<close> when there is no video element or no 2d context.
\<close>

definition captureSnapshot :: "nat \<Rightarrow> js_string option \<Rightarrow> Interview \<Rightarrow> Interview" where
  "captureSnapshot index capture s =
     (case capture of
        None \<Rightarrow> s
      | Some base64Image \<Rightarrow>
          s\<lparr>snapshotsRef := object_set (snapshotsRef s) index
               ((case object_get (snapshotsRef s) index of None \<Rightarrow> [] | Some l \<Rightarrow> l)
                  @ [base64Image])\<rparr>)"

text \<open>
  What \<open>analyzeFrameForMalpractice\<close> of the render at question \<open>index\<close> does when the
  analysis reports a phone or a suspicious gaze with \<open>reason\<close> (read at its declared
  type, a string); in every other case it changes nothing. The alert is cleared by a
  timeout 5000 ms later.
\<close>

definition malpractice_detected :: "nat \<Rightarrow> js_string \<Rightarrow> Interview \<Rightarrow> Interview" where
  "malpractice_detected index reason s =
     s\<lparr>malpracticeAlert := Some reason,
       malpracticeLogsRef := object_set (malpracticeLogsRef s) index
         ((case object_get (malpracticeLogsRef s) index of None \<Rightarrow> [] | Some l \<Rightarrow> l)
            @ [reason])\<rparr>"

definition alert_timeout :: "Interview \<Rightarrow> Interview" where
  "alert_timeout s = s\<lparr>malpracticeAlert := None\<rparr>"

definition handleToggleRecording :: "Interview \<Rightarrow> Interview" where
  "handleToggleRecording s =
     (if isRecording s then
        (let s1 = (recognition_stop s)\<lparr>isRecording := False\<rparr>;
             s2 = clear_if_set (snapshotIntervalRef s1) s1;
             s3 = clear_if_set (malpracticeCheckIntervalRef s2) s2
         in s3\<lparr>snapshotIntervalRef := None, malpracticeCheckIntervalRef := None,
               malpracticeAlert := None\<rparr>)
      else
        (let s1 = s\<lparr>answersRef := array_set (answersRef s) (currentQuestionIndex s) [],
                    malpracticeLogsRef :=
                      object_set (malpracticeLogsRef s) (currentQuestionIndex s) [],
                    transcript := [], malpracticeAlert := None\<rparr>;
             s2 = (recognition_start s1)\<lparr>isRecording := True\<rparr>;
             s3 = (setInterval (CaptureSnapshot (currentQuestionIndex s)) 5000 s2)
                    \<lparr>snapshotIntervalRef := Some (nextHandle s2)\<rparr>
         in (setInterval (AnalyzeFrame (currentQuestionIndex s)) 8000 s3)
              \<lparr>malpracticeCheckIntervalRef := Some (nextHandle s3)\<rparr>))"

text \<open>
  The cleanup of the effect, run when \<open>currentQuestionIndex\<close> changes (the effect
  depends on it through \<open>analyzeFrameForMalpractice\<close>); the effect then runs again
  and puts a new recogniser, not started, behind \<open>recognitionRef\<close>. Without speech
  recognition the effect returns no cleanup.
\<close>

definition effect_cleanup :: "Interview \<Rightarrow> Interview" where
  "effect_cleanup s =
     (case recognitionRef s of
        None \<Rightarrow> s
      | Some started \<Rightarrow>
          (let s1 = recognition_stop s;
               s2 = clear_if_set (snapshotIntervalRef s1) s1
           in clear_if_set (malpracticeCheckIntervalRef s2) s2))"

text \<open>\<open>handleNextQuestion\<close> up to its \<open>await\<close> of 500 ms.\<close>

definition handleNextQuestion_begin :: "Interview \<Rightarrow> Interview" where
  "handleNextQuestion_begin s =
     (let s1 = (if isRecording s then handleToggleRecording s else s);
          s2 = s1\<lparr>isProcessing := True\<rparr>
      in s2\<lparr>answersRef := array_set (answersRef s2) (currentQuestionIndex s) (trim (transcript s))\<rparr>)"

text \<open>
  \<open>handleNextQuestion\<close> after the \<open>await\<close>. \<open>index\<close> is the \<open>currentQuestionIndex\<close> the
  call closed over; \<open>setCurrentQuestionIndex(prev => prev + 1)\<close> adds to the state as it
  is then. The second component is the arguments of \<open>onInterviewComplete\<close>, if called.
\<close>

definition handleNextQuestion_resume ::
  "'q list \<Rightarrow> nat \<Rightarrow> Interview
     \<Rightarrow> Interview \<times> (js_array \<times> js_index_object \<times> js_index_object) option" where
  "handleNextQuestion_resume qs index s =
     (let s1 = s\<lparr>transcript := [], isProcessing := False\<rparr>
      in if int index < int (length qs) - 1
         then (effect_cleanup (s1\<lparr>currentQuestionIndex := currentQuestionIndex s1 + 1\<rparr>), None)
         else (s1, Some (answersRef s1, snapshotsRef s1, malpracticeLogsRef s1)))"

text \<open>One call with nothing else happening during the \<open>await\<close>.\<close>

definition handleNextQuestion ::
  "'q list \<Rightarrow> Interview
     \<Rightarrow> Interview \<times> (js_array \<times> js_index_object \<times> js_index_object) option" where
  "handleNextQuestion qs s =
     handleNextQuestion_resume qs (currentQuestionIndex s) (handleNextQuestion_begin s)"

text \<open>
  What can happen to a mounted Interview: a click on the record button (disabled while
  \<open>isProcessing\<close>) or on the next button (disabled while \<open>isProcessing || isRecording\<close>),
  the end of a suspended call's wait, a recognition result from the recogniser made
  for the question at some index, a recognition error, an interval firing with what
  the canvas then yields, a malpractice detection coming back for the render at some
  index, and the alert's timeout. Where speech recognition is supported, a recogniser
  has been made for every index from 0 to the current one, and for no other.
\<close>

datatype event =
    ClickRecord
  | ClickNext
  | NextTimeout
  | SpeechResult nat "SpeechRecognitionResult list"
  | SpeechError js_string
  | IntervalFires nat "js_string option"
  | MalpracticeDetected nat js_string
  | AlertTimeout

text \<open>
  An active interval fires. \<open>captureSnapshot\<close> runs at once; the analysis of a frame
  is a request, and what it finds comes back later as an event of its own.
\<close>

definition interval_fires :: "nat \<Rightarrow> js_string option \<Rightarrow> Interview \<Rightarrow> Interview" where
  "interval_fires h capture s =
     (case map_of (intervals s) h of
        None \<Rightarrow> s
      | Some iv \<Rightarrow>
          (case callback iv of
             CaptureSnapshot index \<Rightarrow> captureSnapshot index capture s
           | AnalyzeFrame index \<Rightarrow> s))"

fun interview_step ::
  "'q list \<Rightarrow> event \<Rightarrow> Interview
     \<Rightarrow> Interview \<times> (js_array \<times> js_index_object \<times> js_index_object) option" where
  "interview_step qs ClickRecord s =
     (if isProcessing s then (s, None) else (handleToggleRecording s, None))"
| "interview_step qs ClickNext s =
     (if isProcessing s \<or> isRecording s then (s, None)
      else ((handleNextQuestion_begin s)\<lparr>suspended := suspended s @ [currentQuestionIndex s]\<rparr>,
            None))"
| "interview_step qs NextTimeout s =
     (case suspended s of
        [] \<Rightarrow> (s, None)
      | index # rest \<Rightarrow> handleNextQuestion_resume qs index (s\<lparr>suspended := rest\<rparr>))"
| "interview_step qs (SpeechResult index results) s =
     (if recognitionRef s = None \<or> currentQuestionIndex s < index then (s, None)
      else (onresult index results s, None))"
| "interview_step qs (SpeechError err) s = (onerror err s, None)"
| "interview_step qs (IntervalFires h capture) s = (interval_fires h capture s, None)"
| "interview_step qs (MalpracticeDetected index reason) s =
     (malpractice_detected index reason s, None)"
| "interview_step qs AlertTimeout s = (alert_timeout s, None)"

fun interview_run :: "'q list \<Rightarrow> event list \<Rightarrow> Interview \<Rightarrow> Interview" where
  "interview_run qs [] s = s"
| "interview_run qs (e # es) s =
     interview_run qs es (fst (interview_step qs e s))"

section \<open>Notions the properties are stated with\<close>

text \<open>
  The three screens (home/config, live interview, report); the loading indicator is
  not one of them.
\<close>

fun is_screen :: "view \<Rightarrow> bool" where
  "is_screen (HomeView e) = True"
| "is_screen (LoadingView m) = False"
| "is_screen (InterviewView q) = True"
| "is_screen (ReportView r) = True"

text \<open>
  What holds of a mounted Interview after every event: the index is in range, and a
  call suspended at its \<open>await\<close> closed over the index as it still is, with both
  buttons disabled.
\<close>

definition index_invariant :: "'q list \<Rightarrow> Interview \<Rightarrow> bool" where
  "index_invariant qs s \<longleftrightarrow>
     currentQuestionIndex s < length qs
     \<and> (suspended s = [] \<or> (suspended s = [currentQuestionIndex s] \<and> isProcessing s))"

text \<open>
  The handles of the active intervals that run \<open>captureSnapshot\<close>, and what holds of
  them as long as no recognition error other than \<open>'no-speech'\<close> occurs: while
  recording the only such interval is the one \<open>snapshotIntervalRef\<close> holds, and while
  not recording there is none.
\<close>

definition capture_handles :: "(nat \<times> interval) list \<Rightarrow> nat list" where
  "capture_handles ivs =
     map fst (filter (\<lambda>(h, iv). case callback iv of CaptureSnapshot index \<Rightarrow> True
                                  | AnalyzeFrame index \<Rightarrow> False) ivs)"

definition recording_invariant :: "Interview \<Rightarrow> bool" where
  "recording_invariant s \<longleftrightarrow>
     nextHandle s \<noteq> 0
     \<and> (isRecording s \<longrightarrow>
          (\<exists>h. snapshotIntervalRef s = Some h \<and> h \<noteq> 0
             \<and> set (capture_handles (intervals s)) \<subseteq> {h}))
     \<and> (\<not> isRecording s \<longrightarrow> capture_handles (intervals s) = [])"

text \<open>An event other than a recognition error that is not \<open>'no-speech'\<close>.\<close>

definition benign :: "event \<Rightarrow> bool" where
  "benign e = (case e of SpeechError err \<Rightarrow> err = lit ''no-speech'' | _ \<Rightarrow> True)"

text \<open>
  An application for the examples: started from the Home form's defaults, with two
  questions generated.
\<close>

text \<open>
  A platform for examples with string questions and no malpractice logs:
  \<open>JSON.stringify\<close> of the empty object is \<open>'{}'\<close>, and no value that is not a string
  is converted.
\<close>

definition example_platform :: platform where
  "example_platform =
     \<lparr>JSON_stringify = (\<lambda>logs. lit ''{}''), ToString = (\<lambda>v. Inl TypeError)\<rparr>"

definition example_questions :: json where
  "example_questions = JArr [JStr (lit ''Why this role?''), JStr (lit ''Describe a project.'')]"

definition example_app :: App where
  "example_app =
     startInterview (handleSubmit Home_initial)
       (TextParses (JObj [(lit ''questions'', example_questions)])) App_initial"

section \<open>Properties\<close>

declare number_to_string.simps [simp del]

subsection \<open>Auxiliary facts\<close>

lemma lit_Nil_iff [simp]: "lit s = [] \<longleftrightarrow> s = []"
  by (simp add: lit_def)

lemma array_get_set: "array_get (array_set a i v) i = Some v"
  by (simp add: array_get_def array_set_def nth_append)

lemma array_get_set_other: "j \<noteq> i \<Longrightarrow> array_get (array_set a i v) j = array_get a j"
  by (auto simp: array_get_def array_set_def nth_append nth_Cons split: nat.splits)

lemma example_app_eq:
  "example_app =
     \<lparr>appState = INTERVIEW,
      session = Some \<lparr>config = \<lparr>role = lit ''Software Engineer'', difficulty = lit ''Medium''\<rparr>,
                      questions = example_questions, answers = [], snapshots = [],
                      malpracticeLogs = Some [], evaluation = None\<rparr>,
      loadingMessage = lit ''Generating your interview questions...'',
      error = None\<rparr>"
  by (simp add: example_app_def startInterview_def startInterview_resume_def
      startInterview_begin_def App_initial_def example_questions_def handleSubmit_def
      Home_initial_def)

text \<open>The loop of \<open>forEach\<close> in closed form, in both directions.\<close>

lemma forEach_question_parts:
  "forEach_question pf ans snaps i qs acc = Inr parts \<Longrightarrow>
     \<exists>ts. map (question_text pf) qs = map Inr ts \<and>
          parts = acc @ concat (map (\<lambda>(k, t). question_parts ans snaps k t)
                                 (zip [i..<i + length ts] ts))"
proof (induction qs arbitrary: i acc)
  case Nil
  then show ?case by simp
next
  case (Cons q qs)
  from Cons.prems obtain t where t: "question_text pf q = Inr t"
    and rest: "forEach_question pf ans snaps (i + 1) qs (acc @ question_parts ans snaps i t)
                 = Inr parts"
    by (auto split: sum.splits)
  from Cons.IH [OF rest] obtain ts where ts: "map (question_text pf) qs = map Inr ts"
    and parts: "parts = (acc @ question_parts ans snaps i t)
                  @ concat (map (\<lambda>(k, t). question_parts ans snaps k t)
                                (zip [i + 1..<i + 1 + length ts] ts))"
    by blast
  have "[i..<i + length (t # ts)] = i # [i + 1..<i + 1 + length ts]"
    by (simp add: upt_rec)
  with t ts parts show ?case
    by (intro exI [of _ "t # ts"]) simp
qed

lemma forEach_question_texts:
  "map (question_text pf) qs = map Inr ts \<Longrightarrow>
   forEach_question pf ans snaps i qs acc =
     Inr (acc @ concat (map (\<lambda>(k, t). question_parts ans snaps k t)
                            (zip [i..<i + length ts] ts)))"
proof (induction qs arbitrary: i acc ts)
  case Nil
  then show ?case by simp
next
  case (Cons q qs)
  from Cons.prems obtain t ts' where ts: "ts = t # ts'" and t: "question_text pf q = Inr t"
    and rest: "map (question_text pf) qs = map Inr ts'"
    by (cases ts) auto
  have "[i..<i + length (t # ts')] = i # [i + 1..<i + 1 + length ts']"
    by (simp add: upt_rec)
  with Cons.IH [OF rest] t ts show ?case
    by simp
qed

lemma evaluation_parts_iff:
  "evaluation_parts pf s ans snaps = Inr parts \<longleftrightarrow>
     (\<exists>qs ts. questions s = JArr qs \<and> map (question_text pf) qs = map Inr ts
        \<and> parts = Text (lit ''Begin Evaluation:\<newline>'')
            # concat (map (\<lambda>(k, t). question_parts ans snaps k t) (zip [0..<length ts] ts)))"
proof
  assume a: "evaluation_parts pf s ans snaps = Inr parts"
  then obtain qs where qs: "questions s = JArr qs"
    by (cases "questions s") (auto simp: evaluation_parts_def)
  with a forEach_question_parts
    [of pf ans snaps 0 qs "[Text (lit ''Begin Evaluation:\<newline>'')]" parts]
  show "\<exists>qs ts. questions s = JArr qs \<and> map (question_text pf) qs = map Inr ts
        \<and> parts = Text (lit ''Begin Evaluation:\<newline>'')
            # concat (map (\<lambda>(k, t). question_parts ans snaps k t) (zip [0..<length ts] ts))"
    by (auto simp: evaluation_parts_def)
next
  assume "\<exists>qs ts. questions s = JArr qs \<and> map (question_text pf) qs = map Inr ts
        \<and> parts = Text (lit ''Begin Evaluation:\<newline>'')
            # concat (map (\<lambda>(k, t). question_parts ans snaps k t) (zip [0..<length ts] ts))"
  then show "evaluation_parts pf s ans snaps = Inr parts"
    by (auto simp: evaluation_parts_def forEach_question_texts [where i = 0, simplified])
qed

text \<open>The loop of \<open>onresult\<close> in closed form.\<close>

lemma onresult_loop_eq:
  "onresult_loop rs f i =
     (f @ concat (map (\<lambda>r. result_transcript r @ lit '' '') (filter isFinal rs)),
      (case filter (\<lambda>r. \<not> isFinal r) rs of [] \<Rightarrow> i | ns \<Rightarrow> result_transcript (last ns)))"
  by (induction rs arbitrary: f i) (auto split: list.splits)

text \<open>What the handlers of the Interview leave alone.\<close>

lemma clear_if_set_fields [simp]:
  "currentQuestionIndex (clear_if_set r s) = currentQuestionIndex s"
  "isProcessing (clear_if_set r s) = isProcessing s"
  "isRecording (clear_if_set r s) = isRecording s"
  "suspended (clear_if_set r s) = suspended s"
  "snapshotsRef (clear_if_set r s) = snapshotsRef s"
  "answersRef (clear_if_set r s) = answersRef s"
  "malpracticeLogsRef (clear_if_set r s) = malpracticeLogsRef s"
  "transcript (clear_if_set r s) = transcript s"
  "recognitionRef (clear_if_set r s) = recognitionRef s"
  "snapshotIntervalRef (clear_if_set r s) = snapshotIntervalRef s"
  "malpracticeCheckIntervalRef (clear_if_set r s) = malpracticeCheckIntervalRef s"
  by (simp_all add: clear_if_set_def clearInterval_def split: option.splits)

lemma handleToggleRecording_fields [simp]:
  "currentQuestionIndex (handleToggleRecording s) = currentQuestionIndex s"
  "isProcessing (handleToggleRecording s) = isProcessing s"
  "suspended (handleToggleRecording s) = suspended s"
  "snapshotsRef (handleToggleRecording s) = snapshotsRef s"
  "isRecording (handleToggleRecording s) = (\<not> isRecording s)"
  by (simp_all add: handleToggleRecording_def Let_def recognition_stop_def recognition_start_def
      setInterval_def)

lemma effect_cleanup_fields [simp]:
  "currentQuestionIndex (effect_cleanup s) = currentQuestionIndex s"
  "isProcessing (effect_cleanup s) = isProcessing s"
  "suspended (effect_cleanup s) = suspended s"
  "snapshotsRef (effect_cleanup s) = snapshotsRef s"
  "answersRef (effect_cleanup s) = answersRef s"
  "malpracticeLogsRef (effect_cleanup s) = malpracticeLogsRef s"
  by (simp_all add: effect_cleanup_def Let_def recognition_stop_def split: option.splits)

lemma handleNextQuestion_begin_fields [simp]:
  "currentQuestionIndex (handleNextQuestion_begin s) = currentQuestionIndex s"
  "isProcessing (handleNextQuestion_begin s) = True"
  "suspended (handleNextQuestion_begin s) = suspended s"
  "snapshotsRef (handleNextQuestion_begin s) = snapshotsRef s"
  by (simp_all add: handleNextQuestion_begin_def Let_def)

text \<open>Every event keeps the invariant.\<close>

lemma index_invariant_step:
  assumes "index_invariant qs s"
  shows "index_invariant qs (fst (interview_step qs e s))"
proof (cases e)
  case ClickRecord
  with assms show ?thesis by (auto simp: index_invariant_def)
next
  case ClickNext
  with assms show ?thesis by (auto simp: index_invariant_def)
next
  case NextTimeout
  with assms show ?thesis
    by (auto simp: index_invariant_def handleNextQuestion_resume_def Let_def split: list.splits)
next
  case (SpeechResult i rs)
  with assms show ?thesis
    by (auto simp: index_invariant_def onresult_def split: prod.splits)
next
  case (SpeechError err)
  with assms show ?thesis by (auto simp: index_invariant_def onerror_def)
next
  case (IntervalFires h c)
  with assms show ?thesis
    by (auto simp: index_invariant_def interval_fires_def captureSnapshot_def
        split: option.splits timer_callback.splits)
next
  case (MalpracticeDetected i r)
  with assms show ?thesis by (auto simp: index_invariant_def malpractice_detected_def)
next
  case AlertTimeout
  with assms show ?thesis by (auto simp: index_invariant_def alert_timeout_def)
qed

lemma index_invariant_run:
  "index_invariant qs s \<Longrightarrow> index_invariant qs (interview_run qs es s)"
  by (induction es arbitrary: s) (simp_all add: index_invariant_step)

lemma index_invariant_initial: "qs \<noteq> [] \<Longrightarrow> index_invariant qs (Interview_initial b)"
  by (simp add: index_invariant_def Interview_initial_def)

text \<open>The intervals that capture snapshots, under the handlers.\<close>

lemma object_get_set: "object_get (object_set ob i v) i = Some v"
  by (induction ob i v rule: object_set.induct) (auto simp: object_get_def)

lemma capture_handles_filter:
  "capture_handles (filter (\<lambda>(k, iv). k \<noteq> h) ivs) = filter (\<lambda>k. k \<noteq> h) (capture_handles ivs)"
  by (induction ivs) (auto simp: capture_handles_def split: timer_callback.splits)

lemma capture_handles_append [simp]:
  "capture_handles (ivs @ jvs) = capture_handles ivs @ capture_handles jvs"
  by (simp add: capture_handles_def)

lemma capture_handles_simps [simp]:
  "capture_handles [] = []"
  "capture_handles ((h, iv) # ivs) =
     (case callback iv of CaptureSnapshot i \<Rightarrow> [h] | AnalyzeFrame i \<Rightarrow> [])
       @ capture_handles ivs"
  by (simp_all add: capture_handles_def split: timer_callback.splits)

lemma clear_if_set_handles:
  "set (capture_handles (intervals (clear_if_set r s))) \<subseteq> set (capture_handles (intervals s))"
  by (auto simp: clear_if_set_def clearInterval_def capture_handles_filter split: option.splits)

lemma clear_if_set_handles_own:
  "h \<noteq> 0 \<Longrightarrow> set (capture_handles (intervals s)) \<subseteq> {h} \<Longrightarrow>
   capture_handles (intervals (clear_if_set (Some h) s)) = []"
  by (auto simp: clear_if_set_def clearInterval_def capture_handles_filter filter_empty_conv)

lemma clear_if_set_handles_empty:
  "capture_handles (intervals s) = [] \<Longrightarrow> capture_handles (intervals (clear_if_set r s)) = []"
  using clear_if_set_handles [of r s] by simp

lemma clear_if_set_nextHandle [simp]:
  "nextHandle (clear_if_set r s) = nextHandle s"
  by (simp add: clear_if_set_def clearInterval_def split: option.splits)

lemma recording_invariant_toggle:
  assumes "recording_invariant s"
  shows "recording_invariant (handleToggleRecording s)"
proof (cases "isRecording s")
  case True
  with assms obtain h where h: "snapshotIntervalRef s = Some h" "h \<noteq> 0"
    "set (capture_handles (intervals s)) \<subseteq> {h}" and n: "nextHandle s \<noteq> 0"
    by (auto simp: recording_invariant_def)
  let ?s1 = "(recognition_stop s)\<lparr>isRecording := False\<rparr>"
  have "capture_handles (intervals (clear_if_set (Some h) ?s1)) = []"
    using h by (intro clear_if_set_handles_own) (simp_all add: recognition_stop_def)
  then have "capture_handles (intervals (clear_if_set
          (malpracticeCheckIntervalRef (clear_if_set (Some h) ?s1))
          (clear_if_set (Some h) ?s1))) = []"
    by (rule clear_if_set_handles_empty)
  then show ?thesis
    using True n h
    by (simp add: recording_invariant_def handleToggleRecording_def Let_def recognition_stop_def)
next
  case False
  with assms have e: "capture_handles (intervals s) = []" and n: "nextHandle s \<noteq> 0"
    by (auto simp: recording_invariant_def)
  then show ?thesis
    using False
    by (simp add: recording_invariant_def handleToggleRecording_def Let_def
        setInterval_def recognition_start_def)
qed

lemma recording_invariant_cleanup:
  assumes "recording_invariant s"
  shows "recording_invariant (effect_cleanup s)"
proof -
  have sub: "set (capture_handles (intervals (effect_cleanup s)))
               \<subseteq> set (capture_handles (intervals s))"
  proof (cases "recognitionRef s")
    case None
    then show ?thesis by (simp add: effect_cleanup_def)
  next
    case (Some started)
    let ?s1 = "recognition_stop s"
    let ?s2 = "clear_if_set (snapshotIntervalRef ?s1) ?s1"
    have "set (capture_handles (intervals (clear_if_set (malpracticeCheckIntervalRef ?s2) ?s2)))
            \<subseteq> set (capture_handles (intervals ?s2))"
      by (rule clear_if_set_handles)
    also have "\<dots> \<subseteq> set (capture_handles (intervals ?s1))"
      by (rule clear_if_set_handles)
    also have "intervals ?s1 = intervals s"
      by (simp add: recognition_stop_def)
    finally show ?thesis
      using Some by (simp add: effect_cleanup_def Let_def)
  qed
  have same: "isRecording (effect_cleanup s) = isRecording s"
    "snapshotIntervalRef (effect_cleanup s) = snapshotIntervalRef s"
    "nextHandle (effect_cleanup s) = nextHandle s"
    by (simp_all add: effect_cleanup_def Let_def recognition_stop_def split: option.splits)
  from assms sub same show ?thesis
    by (auto simp: recording_invariant_def split: if_splits)
qed

lemma recording_invariant_step:
  assumes "recording_invariant s" and "benign e"
  shows "recording_invariant (fst (interview_step qs e s))"
proof (cases e)
  case ClickRecord
  with assms show ?thesis by (simp add: recording_invariant_toggle)
next
  case ClickNext
  show ?thesis
  proof (cases "isProcessing s \<or> isRecording s")
    case True
    with ClickNext assms show ?thesis by auto
  next
    case False
    have "recording_invariant (handleNextQuestion_begin s)"
      using assms(1) recording_invariant_toggle [OF assms(1)]
      by (auto simp: handleNextQuestion_begin_def Let_def recording_invariant_def)
    then have "recording_invariant ((handleNextQuestion_begin s)\<lparr>suspended := x\<rparr>)" for x
      by (auto simp: recording_invariant_def split: if_splits)
    with ClickNext False show ?thesis by simp
  qed
next
  case NextTimeout
  show ?thesis
  proof (cases "suspended s")
    case Nil
    with NextTimeout assms show ?thesis by simp
  next
    case (Cons index rest)
    let ?s1 = "s\<lparr>suspended := rest, transcript := [], isProcessing := False\<rparr>"
    have a: "recording_invariant ?s1"
      using assms(1) by (simp add: recording_invariant_def)
    have "recording_invariant (?s1\<lparr>currentQuestionIndex := currentQuestionIndex ?s1 + 1\<rparr>)"
      using assms(1) by (simp add: recording_invariant_def)
    then have b: "recording_invariant
        (effect_cleanup (?s1\<lparr>currentQuestionIndex := currentQuestionIndex ?s1 + 1\<rparr>))"
      by (rule recording_invariant_cleanup)
    from a b NextTimeout Cons show ?thesis
      by (simp add: handleNextQuestion_resume_def Let_def)
  qed
next
  case (SpeechResult i rs)
  with assms show ?thesis
    by (auto simp: recording_invariant_def onresult_def split: prod.splits)
next
  case (SpeechError err)
  with assms show ?thesis by (simp add: benign_def onerror_def)
next
  case (IntervalFires h c)
  with assms show ?thesis
    by (auto simp: recording_invariant_def interval_fires_def captureSnapshot_def
        split: option.splits timer_callback.splits)
next
  case (MalpracticeDetected i r)
  with assms show ?thesis by (auto simp: recording_invariant_def malpractice_detected_def)
next
  case AlertTimeout
  with assms show ?thesis by (auto simp: recording_invariant_def alert_timeout_def)
qed

lemma recording_invariant_run:
  "recording_invariant s \<Longrightarrow> list_all benign es \<Longrightarrow>
   recording_invariant (interview_run qs es s)"
  by (induction es arbitrary: s) (simp_all add: recording_invariant_step)

lemma recording_invariant_initial: "recording_invariant (Interview_initial b)"
  by (simp add: recording_invariant_def Interview_initial_def)

lemma interview_run_append:
  "interview_run qs (es @ fs) s = interview_run qs fs (interview_run qs es s)"
  by (induction es arbitrary: s) simp_all

lemma interval_fires_changes:
  assumes "snapshotsRef (interval_fires h c s) \<noteq> snapshotsRef s"
  shows "h \<in> set (capture_handles (intervals s))"
proof -
  from assms obtain iv i where iv: "map_of (intervals s) h = Some iv"
    and cb: "callback iv = CaptureSnapshot i"
    by (auto simp: interval_fires_def split: option.splits timer_callback.splits)
  from iv have "(h, iv) \<in> set (intervals s)"
    by (rule map_of_SomeD)
  with cb show ?thesis
    by (force simp: capture_handles_def)
qed

lemma handleNextQuestion_begin_logs [simp]:
  "malpracticeLogsRef (handleNextQuestion_begin s) = malpracticeLogsRef s"
  by (simp add: handleNextQuestion_begin_def Let_def handleToggleRecording_def
      recognition_stop_def)

subsection \<open>Statements of the specification\<close>

text \<open>
  C1. For every interview session, the evaluation request that
  \<open>handleInterviewComplete\<close> assembles and sends contains, for each question in order
  (index 0 to \<open>questions.length - 1\<close>), a text part with the question's number and
  text, a text part with the candidate's transcribed answer (or the placeholder
  \<open>'(No answer provided)'\<close> when the answer at that index is missing or empty), and,
  after the text part that announces the snapshots, one inline JPEG image part per
  captured snapshot of that question when its snapshot list is non-empty, and the single
  text part \<open>'(No snapshots available)'\<close> otherwise. Stated as the request in full: a
  request \<open>req\<close> is sent exactly when there is a session whose questions are an array
  and every question has a text \<open>t\<close> (itself, for a string), and then \<open>req\<close> is the
  record below.
\<close>

theorem evaluation_request_contents:
  \<open>(handleInterviewComplete_sent pf ans snaps logs app = Some req \<longleftrightarrow>
      (\<exists>s qs ts. session app = Some s \<and> questions s = JArr qs
         \<and> map (question_text pf) qs = map Inr ts
         \<and> req =
            \<lparr>request_model = lit ''gemini-2.5-flash'',
             request_contents = ContentParts
               (Text (lit ''Begin Evaluation:\<newline>'')
                # concat (map (\<lambda>(index, t).
                     [Text (lit ''\<newline>--- Question '' @ number_to_string (index + 1) @ lit '': ''
                              @ t @ lit '' ---\<newline>''),
                      Text (lit ''Candidate's Answer: "''
                              @ (case array_get ans index of
                                   None \<Rightarrow> lit ''(No answer provided)''
                                 | Some a \<Rightarrow> if a = [] then lit ''(No answer provided)'' else a)
                              @ lit ''"\<newline>''),
                      Text (lit ''Body Language Snapshots during answer:\<newline>'')]
                     @ (case object_get snaps index of
                          None \<Rightarrow> [Text (lit ''(No snapshots available)\<newline>'')]
                        | Some images \<Rightarrow>
                            if images = [] then [Text (lit ''(No snapshots available)\<newline>'')]
                            else map (InlineData (lit ''image/jpeg'')) images))
                   (zip [0..<length ts] ts))),
             request_systemInstruction = Some (systemInstruction pf (config s) logs),
             request_responseMimeType = lit ''application/json'',
             request_responseSchema = evaluation_schema\<rparr>))
   \<and> map (question_text pf) (map JStr texts) = map Inr texts\<close>
proof -
  have body: \<open>(\<lambda>(index, t).
                     [Text (lit ''\<newline>--- Question '' @ number_to_string (index + 1) @ lit '': ''
                              @ t @ lit '' ---\<newline>''),
                      Text (lit ''Candidate's Answer: "''
                              @ (case array_get ans index of
                                   None \<Rightarrow> lit ''(No answer provided)''
                                 | Some a \<Rightarrow> if a = [] then lit ''(No answer provided)'' else a)
                              @ lit ''"\<newline>''),
                      Text (lit ''Body Language Snapshots during answer:\<newline>'')]
                     @ (case object_get snaps index of
                          None \<Rightarrow> [Text (lit ''(No snapshots available)\<newline>'')]
                        | Some images \<Rightarrow>
                            if images = [] then [Text (lit ''(No snapshots available)\<newline>'')]
                            else map (InlineData (lit ''image/jpeg'')) images))
              = (\<lambda>(k, t). question_parts ans snaps k t)\<close>
    by (auto simp: fun_eq_iff question_parts_def split: option.splits)
  have texts: "map (question_text pf) (map JStr texts) = map Inr texts"
    by (simp add: question_text_def)
  have "handleInterviewComplete_sent pf ans snaps logs app = Some req \<longleftrightarrow>
      (\<exists>s parts. session app = Some s \<and> evaluation_parts pf s ans snaps = Inr parts
         \<and> req =
            \<lparr>request_model = lit ''gemini-2.5-flash'',
             request_contents = ContentParts parts,
             request_systemInstruction = Some (systemInstruction pf (config s) logs),
             request_responseMimeType = lit ''application/json'',
             request_responseSchema = evaluation_schema\<rparr>)"
    by (auto simp: handleInterviewComplete_sent_def handleInterviewComplete_request_def
        split: option.splits sum.splits)
  also have "\<dots> \<longleftrightarrow> (\<exists>s qs ts. session app = Some s \<and> questions s = JArr qs
         \<and> map (question_text pf) qs = map Inr ts
         \<and> req =
            \<lparr>request_model = lit ''gemini-2.5-flash'',
             request_contents = ContentParts
               (Text (lit ''Begin Evaluation:\<newline>'')
                # concat (map (\<lambda>(k, t). question_parts ans snaps k t) (zip [0..<length ts] ts))),
             request_systemInstruction = Some (systemInstruction pf (config s) logs),
             request_responseMimeType = lit ''application/json'',
             request_responseSchema = evaluation_schema\<rparr>)"
    unfolding evaluation_parts_iff by blast
  finally have main: "handleInterviewComplete_sent pf ans snaps logs app = Some req \<longleftrightarrow>
      (\<exists>s qs ts. session app = Some s \<and> questions s = JArr qs
         \<and> map (question_text pf) qs = map Inr ts
         \<and> req =
            \<lparr>request_model = lit ''gemini-2.5-flash'',
             request_contents = ContentParts
               (Text (lit ''Begin Evaluation:\<newline>'')
                # concat (map (\<lambda>(k, t). question_parts ans snaps k t) (zip [0..<length ts] ts))),
             request_systemInstruction = Some (systemInstruction pf (config s) logs),
             request_responseMimeType = lit ''application/json'',
             request_responseSchema = evaluation_schema\<rparr>)" .
  show ?thesis
    unfolding body using main texts by blast
qed

text \<open>
  The request for the example application, with an answer and two snapshots for the
  first question and nothing for the second.
\<close>

theorem evaluation_request_contents_witness:
  \<open>\<forall>pf logs. map_option request_contents
       (handleInterviewComplete_sent pf [Some (lit ''Because.'')]
          [(0, [lit ''AAAA'', lit ''BBBB''])] logs example_app) =
     Some (ContentParts
       [Text (lit ''Begin Evaluation:\<newline>''),
        Text (lit ''\<newline>--- Question 1: Why this role? ---\<newline>''),
        Text (lit ''Candidate's Answer: "Because."\<newline>''),
        Text (lit ''Body Language Snapshots during answer:\<newline>''),
        InlineData (lit ''image/jpeg'') (lit ''AAAA''),
        InlineData (lit ''image/jpeg'') (lit ''BBBB''),
        Text (lit ''\<newline>--- Question 2: Describe a project. ---\<newline>''),
        Text (lit ''Candidate's Answer: "(No answer provided)"\<newline>''),
        Text (lit ''Body Language Snapshots during answer:\<newline>''),
        Text (lit ''(No snapshots available)\<newline>'')])\<close>
proof (intro allI)
  fix pf logs
  show \<open>map_option request_contents
       (handleInterviewComplete_sent pf [Some (lit ''Because.'')]
          [(0, [lit ''AAAA'', lit ''BBBB''])] logs example_app) =
     Some (ContentParts
       [Text (lit ''Begin Evaluation:\<newline>''),
        Text (lit ''\<newline>--- Question 1: Why this role? ---\<newline>''),
        Text (lit ''Candidate's Answer: "Because."\<newline>''),
        Text (lit ''Body Language Snapshots during answer:\<newline>''),
        InlineData (lit ''image/jpeg'') (lit ''AAAA''),
        InlineData (lit ''image/jpeg'') (lit ''BBBB''),
        Text (lit ''\<newline>--- Question 2: Describe a project. ---\<newline>''),
        Text (lit ''Candidate's Answer: "(No answer provided)"\<newline>''),
        Text (lit ''Body Language Snapshots during answer:\<newline>''),
        Text (lit ''(No snapshots available)\<newline>'')])\<close>
    using evaluation_request_contents [of pf "[Some (lit ''Because.'')]"
        "[(0, [lit ''AAAA'', lit ''BBBB''])]" logs example_app]
    by (simp add: example_app_eq example_questions_def handleInterviewComplete_sent_def
        handleInterviewComplete_request_def evaluation_parts_def question_text_def
        question_parts_def array_get_def object_get_def number_to_string.simps lit_def)
qed

text \<open>
  C2. For every failure of an API call, the application sets a non-null error message
  and moves \<open>appState\<close> to \<open>'HOME'\<close>; it does not stay in \<open>'LOADING'\<close> and does not enter
  \<open>'INTERVIEW'\<close> or \<open>'REPORT'\<close>. The failures are: for question generation in
  \<open>startInterview\<close>, a thrown SDK error, an unparsable response, and a parsed response
  whose \<open>questions\<close> field is missing or an empty array; for the evaluation request that
  \<open>handleInterviewComplete\<close> sends, a thrown SDK error and an unparsable response.
\<close>

theorem api_failure_returns_home:
  "(outcome = SdkThrows \<or> outcome = TextUnparsable
      \<or> (\<exists>j. outcome = TextParses j
             \<and> (get_questions j = Inr None \<or> get_questions j = Inr (Some (JArr []))))
    \<longrightarrow> error (startInterview c outcome app) =
          Some (lit ''Could not generate questions. Please check your API key and try again.'')
        \<and> appState (startInterview c outcome app) = HOME)
   \<and> ((outcome = SdkThrows \<or> outcome = TextUnparsable)
        \<and> handleInterviewComplete_sent pf ans snaps logs app = Some req
    \<longrightarrow> error (handleInterviewComplete pf ans snaps logs outcome app) =
          Some (lit ''An error occurred during evaluation. Please try another interview.'')
        \<and> appState (handleInterviewComplete pf ans snaps logs outcome app) = HOME)"
  by (auto simp: startInterview_def startInterview_resume_def startInterview_catch_def
      handleInterviewComplete_def handleInterviewComplete_sent_def
      handleInterviewComplete_resume_def
      split: option.splits sum.splits)

text \<open>
  A thrown SDK error and a response \<open>{}\<close> for the first request from the initial
  state; an unparsable response to the evaluation request of the example application.
\<close>

theorem api_failure_returns_home_witness:
  "\<forall>pf.
     error (startInterview (handleSubmit Home_initial) SdkThrows App_initial) =
       Some (lit ''Could not generate questions. Please check your API key and try again.'')
     \<and> appState (startInterview (handleSubmit Home_initial) SdkThrows App_initial) = HOME
     \<and> get_questions (JObj []) = Inr None
     \<and> error (startInterview (handleSubmit Home_initial) (TextParses (JObj [])) App_initial) =
       Some (lit ''Could not generate questions. Please check your API key and try again.'')
     \<and> appState (startInterview (handleSubmit Home_initial) (TextParses (JObj [])) App_initial)
         = HOME
     \<and> handleInterviewComplete_sent pf [] [] [] example_app \<noteq> None
     \<and> error (handleInterviewComplete pf [] [] [] TextUnparsable example_app) =
       Some (lit ''An error occurred during evaluation. Please try another interview.'')
     \<and> appState (handleInterviewComplete pf [] [] [] TextUnparsable example_app) = HOME"
proof (intro allI)
  fix pf
  have sent: "handleInterviewComplete_sent pf [] [] [] example_app \<noteq> None"
    by (simp add: example_app_eq example_questions_def handleInterviewComplete_sent_def
        handleInterviewComplete_request_def evaluation_parts_def question_text_def)
  then obtain req where req: "handleInterviewComplete_sent pf [] [] [] example_app = Some req"
    by blast
  have empty: "get_questions (JObj []) = Inr None"
    by simp
  show "error (startInterview (handleSubmit Home_initial) SdkThrows App_initial) =
       Some (lit ''Could not generate questions. Please check your API key and try again.'')
     \<and> appState (startInterview (handleSubmit Home_initial) SdkThrows App_initial) = HOME
     \<and> get_questions (JObj []) = Inr None
     \<and> error (startInterview (handleSubmit Home_initial) (TextParses (JObj [])) App_initial) =
       Some (lit ''Could not generate questions. Please check your API key and try again.'')
     \<and> appState (startInterview (handleSubmit Home_initial) (TextParses (JObj [])) App_initial)
         = HOME
     \<and> handleInterviewComplete_sent pf [] [] [] example_app \<noteq> None
     \<and> error (handleInterviewComplete pf [] [] [] TextUnparsable example_app) =
       Some (lit ''An error occurred during evaluation. Please try another interview.'')
     \<and> appState (handleInterviewComplete pf [] [] [] TextUnparsable example_app) = HOME"
    using api_failure_returns_home [of SdkThrows "handleSubmit Home_initial" App_initial]
      api_failure_returns_home [of "TextParses (JObj [])" "handleSubmit Home_initial" App_initial]
      api_failure_returns_home [of TextUnparsable _ example_app pf "[]" "[]" "[]" req]
      sent req empty
    by blast
qed

text \<open>
  C3, as amended. \<open>appState\<close> has four values, not three. \<open>renderContent\<close> renders one
  of the three screens (home/config, live interview, report) exactly when \<open>appState\<close>
  is not \<open>'LOADING'\<close>; in \<open>'LOADING'\<close>, which \<open>startInterview\<close> and
  \<open>handleInterviewComplete\<close> enter before they call the API, it renders the loading
  indicator with the loading message.
\<close>

theorem renderContent_views:
  "(is_screen (renderContent app) \<longleftrightarrow> appState app \<noteq> LOADING)
   \<and> (renderContent app = LoadingView (loadingMessage app) \<longleftrightarrow> appState app = LOADING)
   \<and> appState (startInterview_begin app) = LOADING
   \<and> appState (handleInterviewComplete_begin app) = LOADING"
  by (cases "appState app")
     (auto simp: renderContent_def startInterview_begin_def handleInterviewComplete_begin_def
       split: option.splits)

text \<open>
  C3 as stated fails: submitting the Home form from the initial state puts the
  application in \<open>'LOADING'\<close>, where what is rendered is none of the three screens.
\<close>

theorem loading_is_no_screen:
  "appState (startInterview_begin App_initial) = LOADING
   \<and> renderContent (startInterview_begin App_initial) =
       LoadingView (lit ''Generating your interview questions...'')
   \<and> \<not> is_screen (renderContent (startInterview_begin App_initial))"
  by (simp add: renderContent_def startInterview_begin_def App_initial_def)

text \<open>
  C4. For every role and difficulty selected on the Home form, the contents of the
  question-generation request that \<open>startInterview\<close> assembles for the submitted
  configuration is exactly
  \<open>'Generate 5 interview questions for a ' ++ difficulty ++ ' ' ++ role ++ ' position.'\<close>;
  the form starts at role \<open>'Software Engineer'\<close> and difficulty \<open>'Medium'\<close>.
\<close>

theorem startInterview_prompt:
  "request_contents (startInterview_request (handleSubmit (setDifficulty d (setRole r h)))) =
     ContentString (lit ''Generate 5 interview questions for a '' @ d @ lit '' '' @ r
       @ lit '' position.'')
   \<and> request_contents (startInterview_request (handleSubmit (setRole r (setDifficulty d h)))) =
     ContentString (lit ''Generate 5 interview questions for a '' @ d @ lit '' '' @ r
       @ lit '' position.'')
   \<and> request_contents (startInterview_request (handleSubmit h)) =
     ContentString (lit ''Generate 5 interview questions for a '' @ home_difficulty h
       @ lit '' '' @ home_role h @ lit '' position.'')
   \<and> request_contents (startInterview_request (handleSubmit Home_initial)) =
     ContentString (lit ''Generate 5 interview questions for a Medium Software Engineer position.'')"
  by (simp add: startInterview_request_def questions_prompt_def handleSubmit_def
      setRole_def setDifficulty_def Home_initial_def lit_def)

text \<open>
  C5. Webcam snapshots are appended only while recording is on. The code does not keep
  this: a recognition error other than \<open>'no-speech'\<close> turns \<open>isRecording\<close> off and
  leaves the 5000 ms snapshot interval running. After a click on the record button
  and a \<open>'network'\<close> error, recording is off, the interval with handle 1 is still
  installed, and when it fires the snapshot is appended to question 0.
\<close>

theorem snapshot_appended_while_not_recording:
  "isRecording (interview_run [lit ''Why this role?'']
       [ClickRecord, SpeechError (lit ''network'')] (Interview_initial True)) = False
   \<and> snapshotsRef (interview_run [lit ''Why this role?'']
       [ClickRecord, SpeechError (lit ''network'')] (Interview_initial True)) = []
   \<and> map_of (intervals (interview_run [lit ''Why this role?'']
       [ClickRecord, SpeechError (lit ''network'')] (Interview_initial True))) 1 =
       Some \<lparr>callback = CaptureSnapshot 0, delay = 5000\<rparr>
   \<and> snapshotsRef (interview_run [lit ''Why this role?'']
       [ClickRecord, SpeechError (lit ''network''), IntervalFires 1 (Some (lit ''AAAA''))]
       (Interview_initial True)) = [(0, [lit ''AAAA''])]"
  by (simp add: Interview_initial_def handleToggleRecording_def Let_def recognition_start_def
      setInterval_def onerror_def interval_fires_def captureSnapshot_def object_get_def lit_def)

text \<open>
  C6, as amended. On every speech-recognition result event, the concatenation of all
  finalized transcript parts, each followed by a space, then trimmed, is stored as the
  answer at the question index the handler of the delivering recogniser closed over,
  and at no other index: that is the current question index for the recogniser made
  for the current question, and an earlier index for a result that the stopped
  recogniser of an earlier question still delivers. The displayed transcript becomes
  that finalized text, a space, and the latest interim part (the transcript of the
  last result that is not final, or nothing).
\<close>

theorem onresult_answer_and_transcript:
  "array_get (answersRef (onresult index results s)) index =
     Some (trim (concat (map (\<lambda>r. result_transcript r @ lit '' '') (filter isFinal results))))
   \<and> (j \<noteq> index \<longrightarrow>
        array_get (answersRef (onresult index results s)) j = array_get (answersRef s) j)
   \<and> transcript (onresult index results s) =
       trim (concat (map (\<lambda>r. result_transcript r @ lit '' '') (filter isFinal results)))
         @ lit '' ''
         @ (case filter (\<lambda>r. \<not> isFinal r) results of
              [] \<Rightarrow> []
            | ns \<Rightarrow> result_transcript (last ns))
   \<and> (recognitionRef s \<noteq> None \<longrightarrow>
        interview_step qs (SpeechResult (currentQuestionIndex s) results) s =
          (onresult (currentQuestionIndex s) results s, None))
   \<and> (recognitionRef s \<noteq> None \<and> index \<le> currentQuestionIndex s \<longrightarrow>
        interview_step qs (SpeechResult index results) s = (onresult index results s, None))"
  by (auto simp: onresult_def onresult_loop_eq array_get_set array_get_set_other)

text \<open>
  Two final parts and an interim one from the recogniser of question 0, on a new
  Interview.
\<close>

theorem onresult_answer_and_transcript_witness:
  "recognitionRef (Interview_initial True) \<noteq> None
   \<and> 0 \<le> currentQuestionIndex (Interview_initial True)
   \<and> (1::nat) \<noteq> 0
   \<and> interview_step [lit ''Why this role?''] (SpeechResult 0
       [\<lparr>isFinal = True, result_transcript = lit '' I like''\<rparr>,
        \<lparr>isFinal = True, result_transcript = lit ''hard problems''\<rparr>,
        \<lparr>isFinal = False, result_transcript = lit ''and''\<rparr>]) (Interview_initial True) =
       (onresult 0
         [\<lparr>isFinal = True, result_transcript = lit '' I like''\<rparr>,
          \<lparr>isFinal = True, result_transcript = lit ''hard problems''\<rparr>,
          \<lparr>isFinal = False, result_transcript = lit ''and''\<rparr>] (Interview_initial True), None)
   \<and> array_get (answersRef (onresult 0
       [\<lparr>isFinal = True, result_transcript = lit '' I like''\<rparr>,
        \<lparr>isFinal = True, result_transcript = lit ''hard problems''\<rparr>,
        \<lparr>isFinal = False, result_transcript = lit ''and''\<rparr>] (Interview_initial True))) 0 =
     Some (lit ''I like hard problems'')
   \<and> array_get (answersRef (onresult 0
       [\<lparr>isFinal = True, result_transcript = lit '' I like''\<rparr>,
        \<lparr>isFinal = True, result_transcript = lit ''hard problems''\<rparr>,
        \<lparr>isFinal = False, result_transcript = lit ''and''\<rparr>] (Interview_initial True))) 1 =
     None
   \<and> transcript (onresult 0
       [\<lparr>isFinal = True, result_transcript = lit '' I like''\<rparr>,
        \<lparr>isFinal = True, result_transcript = lit ''hard problems''\<rparr>,
        \<lparr>isFinal = False, result_transcript = lit ''and''\<rparr>] (Interview_initial True)) =
     lit ''I like hard problems and''"
  using onresult_answer_and_transcript
    [of 0 "[\<lparr>isFinal = True, result_transcript = lit '' I like''\<rparr>,
          \<lparr>isFinal = True, result_transcript = lit ''hard problems''\<rparr>,
          \<lparr>isFinal = False, result_transcript = lit ''and''\<rparr>]" "Interview_initial True" 1
        "[lit ''Why this role?'']"]
  by (simp add: Interview_initial_def trim_def is_white_space_def lit_def array_get_def)

text \<open>
  C6 as stated fails. The candidate records an answer to question 0, stops, and moves
  on to question 1; the final result of the stopped recogniser of question 0 arrives
  after that. The current question index is 1, and the text is stored at index 0; at
  index 1 nothing is stored.
\<close>

theorem late_result_stored_at_earlier_index:
  "currentQuestionIndex (interview_run [lit ''Why this role?'', lit ''Describe a project.'']
       [ClickRecord,
        SpeechResult 0 [\<lparr>isFinal = False, result_transcript = lit ''one''\<rparr>],
        ClickRecord, ClickNext, NextTimeout,
        SpeechResult 0 [\<lparr>isFinal = True, result_transcript = lit ''one late''\<rparr>]]
       (Interview_initial True)) = 1
   \<and> array_get (answersRef (interview_run [lit ''Why this role?'', lit ''Describe a project.'']
       [ClickRecord,
        SpeechResult 0 [\<lparr>isFinal = False, result_transcript = lit ''one''\<rparr>],
        ClickRecord, ClickNext, NextTimeout]
       (Interview_initial True))) 0 = Some (lit ''one'')
   \<and> array_get (answersRef (interview_run [lit ''Why this role?'', lit ''Describe a project.'']
       [ClickRecord,
        SpeechResult 0 [\<lparr>isFinal = False, result_transcript = lit ''one''\<rparr>],
        ClickRecord, ClickNext, NextTimeout,
        SpeechResult 0 [\<lparr>isFinal = True, result_transcript = lit ''one late''\<rparr>]]
       (Interview_initial True))) 0 = Some (lit ''one late'')
   \<and> array_get (answersRef (interview_run [lit ''Why this role?'', lit ''Describe a project.'']
       [ClickRecord,
        SpeechResult 0 [\<lparr>isFinal = False, result_transcript = lit ''one''\<rparr>],
        ClickRecord, ClickNext, NextTimeout,
        SpeechResult 0 [\<lparr>isFinal = True, result_transcript = lit ''one late''\<rparr>]]
       (Interview_initial True))) 1 = None"
  by (simp add: Interview_initial_def handleToggleRecording_def Let_def recognition_start_def
      recognition_stop_def setInterval_def clear_if_set_def clearInterval_def onresult_def
      handleNextQuestion_begin_def handleNextQuestion_resume_def effect_cleanup_def
      array_set_def array_get_def object_set.simps trim_def is_white_space_def lit_def)

text \<open>
  C7, as amended. After a successful evaluation the session's \<open>evaluation\<close> field is
  set to the parsed response and \<open>appState\<close> becomes \<open>'REPORT'\<close>. \<open>renderContent\<close>
  renders the Report screen if and only if \<open>appState\<close> is \<open>'REPORT'\<close> and
  \<open>session.evaluation\<close> holds a truthy value (the test \<open>session?.evaluation\<close>); in
  \<open>'REPORT'\<close> without a truthy evaluation, whether the field is absent or holds
  \<open>null\<close>, \<open>0\<close>, \<open>false\<close> or the empty string, it renders the Home screen with the
  error \<open>'Failed to load the report.'\<close>.
\<close>

theorem report_rendered_iff_evaluation:
  "(handleInterviewComplete_sent pf ans snaps logs app = Some req \<longrightarrow>
      (\<exists>s. session app = Some s
         \<and> session (handleInterviewComplete pf ans snaps logs (TextParses ev) app) =
             Some (s\<lparr>answers := ans, snapshots := snaps, malpracticeLogs := Some logs,
                     evaluation := Some ev\<rparr>))
      \<and> appState (handleInterviewComplete pf ans snaps logs (TextParses ev) app) = REPORT)
   \<and> (renderContent app = ReportView r \<longleftrightarrow>
        appState app = REPORT \<and> (\<exists>s. session app = Some s \<and> evaluation s = Some r \<and> truthy r))
   \<and> (appState app = REPORT
        \<and> \<not> (\<exists>s r. session app = Some s \<and> evaluation s = Some r \<and> truthy r)
      \<longrightarrow> renderContent app = HomeView (Some (lit ''Failed to load the report.'')))"
  by (cases "appState app")
     (auto simp: renderContent_def handleInterviewComplete_def handleInterviewComplete_sent_def
       handleInterviewComplete_resume_def handleInterviewComplete_begin_def
       split: option.splits sum.splits)

text \<open>
  The example application evaluated to \<open>{"overallScore": 84}\<close> shows the report; put in
  \<open>'REPORT'\<close> with no evaluation it shows Home with the error.
\<close>

theorem report_rendered_iff_evaluation_witness:
  "\<forall>pf.
     handleInterviewComplete_sent pf [] [] [] example_app \<noteq> None
     \<and> appState (handleInterviewComplete pf [] [] []
          (TextParses (JObj [(lit ''overallScore'', JNum 0x4055000000000000)])) example_app)
         = REPORT
     \<and> renderContent (handleInterviewComplete pf [] [] []
          (TextParses (JObj [(lit ''overallScore'', JNum 0x4055000000000000)])) example_app)
         = ReportView (JObj [(lit ''overallScore'', JNum 0x4055000000000000)])
     \<and> appState (example_app\<lparr>appState := REPORT\<rparr>) = REPORT
     \<and> renderContent (example_app\<lparr>appState := REPORT\<rparr>) =
         HomeView (Some (lit ''Failed to load the report.''))"
proof (intro allI)
  fix pf
  let ?ev = "JObj [(lit ''overallScore'', JNum 0x4055000000000000)]"
  let ?done = "handleInterviewComplete pf [] [] [] (TextParses ?ev) example_app"
  have sent: "handleInterviewComplete_sent pf [] [] [] example_app \<noteq> None"
    by (simp add: example_app_eq example_questions_def handleInterviewComplete_sent_def
        handleInterviewComplete_request_def evaluation_parts_def question_text_def)
  then obtain req where req: "handleInterviewComplete_sent pf [] [] [] example_app = Some req"
    by blast
  from report_rendered_iff_evaluation [of pf "[]" "[]" "[]" example_app req ?ev] req
  obtain s where s: "session example_app = Some s"
    and after: "session ?done =
       Some (s\<lparr>answers := [], snapshots := [], malpracticeLogs := Some [], evaluation := Some ?ev\<rparr>)"
    and state: "appState ?done = REPORT"
    by blast
  have shown: "renderContent ?done = ReportView ?ev"
    using report_rendered_iff_evaluation [of pf "[]" "[]" "[]" ?done req ?ev ?ev] after state
    by simp
  have none: "\<not> (\<exists>s r. session (example_app\<lparr>appState := REPORT\<rparr>) = Some s
                  \<and> evaluation s = Some r \<and> truthy r)"
    by (simp add: example_app_eq)
  have home: "renderContent (example_app\<lparr>appState := REPORT\<rparr>) =
         HomeView (Some (lit ''Failed to load the report.''))"
    using report_rendered_iff_evaluation
      [of pf "[]" "[]" "[]" "example_app\<lparr>appState := REPORT\<rparr>" req ?ev ?ev] none
    by simp
  from sent state shown home show
    "handleInterviewComplete_sent pf [] [] [] example_app \<noteq> None
     \<and> appState ?done = REPORT
     \<and> renderContent ?done = ReportView ?ev
     \<and> appState (example_app\<lparr>appState := REPORT\<rparr>) = REPORT
     \<and> renderContent (example_app\<lparr>appState := REPORT\<rparr>) =
         HomeView (Some (lit ''Failed to load the report.''))"
    by simp
qed

text \<open>
  C7 as stated fails. The evaluation of the example application succeeds with the
  response \<open>false\<close>: the \<open>evaluation\<close> field is set and \<open>appState\<close> is \<open>'REPORT'\<close>, yet
  what is rendered is the Home screen with the error, not the report.
\<close>

theorem evaluation_present_but_not_rendered:
  "handleInterviewComplete_sent example_platform [] [] [] example_app \<noteq> None
   \<and> session (handleInterviewComplete example_platform [] [] [] (TextParses (JBool False))
        example_app) =
       Some \<lparr>config = \<lparr>role = lit ''Software Engineer'', difficulty = lit ''Medium''\<rparr>,
             questions = example_questions, answers = [], snapshots = [],
             malpracticeLogs = Some [], evaluation = Some (JBool False)\<rparr>
   \<and> appState (handleInterviewComplete example_platform [] [] [] (TextParses (JBool False))
        example_app) = REPORT
   \<and> renderContent (handleInterviewComplete example_platform [] [] [] (TextParses (JBool False))
        example_app) = HomeView (Some (lit ''Failed to load the report.''))"
  by (simp add: example_app_eq example_questions_def handleInterviewComplete_def
      handleInterviewComplete_sent_def handleInterviewComplete_request_def
      evaluation_parts_def question_text_def handleInterviewComplete_resume_def
      handleInterviewComplete_begin_def renderContent_def)

text \<open>
  C8, as amended. Failures are atomic with respect to the session. If \<open>startInterview\<close>
  fails (it ends in \<open>'HOME'\<close>), \<open>session\<close> keeps its prior value; a new session is
  created only after a \<open>questions\<close> value is obtained that is truthy and whose
  \<open>length\<close> is not 0, whether or not it is an array. If the evaluation in
  \<open>handleInterviewComplete\<close> fails, \<open>session\<close> is unchanged: answers, snapshots,
  malpractice logs and evaluation are written into it only when the response parses.
\<close>

theorem failure_keeps_session:
  "(appState (startInterview c outcome app) = HOME \<longrightarrow>
      session (startInterview c outcome app) = session app)
   \<and> (session (startInterview c outcome app) \<noteq> session app \<longrightarrow>
        (\<exists>j qs. outcome = TextParses j \<and> get_questions j = Inr (Some qs)
           \<and> truthy qs \<and> \<not> length_is_zero qs
           \<and> session (startInterview c outcome app) =
               Some \<lparr>config = c, questions = qs, answers = [], snapshots = [],
                     malpracticeLogs = Some [], evaluation = None\<rparr>))
   \<and> ((\<forall>ev. outcome \<noteq> TextParses ev) \<longrightarrow>
        session (handleInterviewComplete pf ans snaps logs outcome app) = session app)
   \<and> (session (handleInterviewComplete pf ans snaps logs outcome app) \<noteq> session app \<longrightarrow>
        (\<exists>s ev. session app = Some s \<and> outcome = TextParses ev
           \<and> session (handleInterviewComplete pf ans snaps logs outcome app) =
               Some (s\<lparr>answers := ans, snapshots := snaps, malpracticeLogs := Some logs,
                       evaluation := Some ev\<rparr>)))"
  by (cases outcome)
     (auto simp: startInterview_def startInterview_resume_def startInterview_catch_def
       startInterview_begin_def
       handleInterviewComplete_def handleInterviewComplete_resume_def
       handleInterviewComplete_begin_def
       split: option.splits sum.splits)

text \<open>
  A failed restart and a failed evaluation of the example application keep its
  session; the successful start from the initial state creates one.
\<close>

theorem failure_keeps_session_witness:
  "\<forall>pf.
     appState (startInterview (handleSubmit Home_initial) SdkThrows example_app) = HOME
     \<and> session (startInterview (handleSubmit Home_initial) SdkThrows example_app) =
         session example_app
     \<and> session example_app \<noteq> session App_initial
     \<and> session (handleInterviewComplete pf [Some (lit ''Because.'')] [] [] TextUnparsable
          example_app) = session example_app
     \<and> session (handleInterviewComplete pf [Some (lit ''Because.'')] [] []
          (TextParses (JObj [(lit ''overallScore'', JNum 0x4055000000000000)])) example_app)
         \<noteq> session example_app"
proof (intro allI)
  fix pf
  have home: "appState (startInterview (handleSubmit Home_initial) SdkThrows example_app) = HOME"
    by (simp add: startInterview_def startInterview_resume_def startInterview_catch_def)
  have created: "session example_app \<noteq> session App_initial"
    by (simp add: example_app_eq App_initial_def)
  have changed: "session (handleInterviewComplete pf [Some (lit ''Because.'')] [] []
          (TextParses (JObj [(lit ''overallScore'', JNum 0x4055000000000000)])) example_app) \<noteq> session example_app"
    by (simp add: example_app_eq example_questions_def handleInterviewComplete_def
        handleInterviewComplete_request_def evaluation_parts_def question_text_def
        handleInterviewComplete_resume_def handleInterviewComplete_begin_def)
  show "appState (startInterview (handleSubmit Home_initial) SdkThrows example_app) = HOME
     \<and> session (startInterview (handleSubmit Home_initial) SdkThrows example_app) =
         session example_app
     \<and> session example_app \<noteq> session App_initial
     \<and> session (handleInterviewComplete pf [Some (lit ''Because.'')] [] [] TextUnparsable
          example_app) = session example_app
     \<and> session (handleInterviewComplete pf [Some (lit ''Because.'')] [] []
          (TextParses (JObj [(lit ''overallScore'', JNum 0x4055000000000000)])) example_app)
         \<noteq> session example_app"
    using failure_keeps_session [of "handleSubmit Home_initial" SdkThrows example_app]
      failure_keeps_session [of _ TextUnparsable example_app pf "[Some (lit ''Because.'')]"
        "[]" "[]"]
      home created changed
    by simp
qed

text \<open>
  C8 as stated fails in its parenthesis: for the response \<open>{"questions": true}\<close> a
  session is created, and \<open>true\<close> is not an array.
\<close>

theorem session_created_without_array:
  "get_questions (JObj [(lit ''questions'', JBool True)]) = Inr (Some (JBool True))
   \<and> startInterview (handleSubmit Home_initial)
        (TextParses (JObj [(lit ''questions'', JBool True)])) App_initial =
       \<lparr>appState = INTERVIEW,
        session = Some \<lparr>config = handleSubmit Home_initial, questions = JBool True,
                        answers = [], snapshots = [], malpracticeLogs = Some [],
                        evaluation = None\<rparr>,
        loadingMessage = lit ''Generating your interview questions...'',
        error = None\<rparr>"
  by (simp add: startInterview_def startInterview_resume_def startInterview_begin_def
      App_initial_def)

text \<open>
  C9. For every non-empty question list, \<open>currentQuestionIndex\<close> starts at 0 and stays
  in the range from 0 to \<open>questions.length - 1\<close> whatever happens to the mounted
  Interview. \<open>handleNextQuestion\<close> increments it when it is strictly below
  \<open>questions.length - 1\<close>; when it equals \<open>questions.length - 1\<close> it leaves it and
  calls \<open>onInterviewComplete\<close> with the collected answers (the trimmed transcript stored
  for the current question), snapshots and malpractice logs, as the refs hold them.
\<close>

theorem currentQuestionIndex_in_range:
  assumes "qs \<noteq> []"
  shows "currentQuestionIndex (Interview_initial supported) = 0
    \<and> currentQuestionIndex (interview_run qs es (Interview_initial supported)) < length qs
    \<and> (currentQuestionIndex s < length qs - 1 \<longrightarrow>
         currentQuestionIndex (fst (handleNextQuestion qs s)) = currentQuestionIndex s + 1
         \<and> snd (handleNextQuestion qs s) = None)
    \<and> (currentQuestionIndex s = length qs - 1 \<longrightarrow>
         currentQuestionIndex (fst (handleNextQuestion qs s)) = currentQuestionIndex s
         \<and> snd (handleNextQuestion qs s) =
             Some (answersRef (fst (handleNextQuestion qs s)),
                   snapshotsRef (fst (handleNextQuestion qs s)),
                   malpracticeLogsRef (fst (handleNextQuestion qs s)))
         \<and> array_get (answersRef (fst (handleNextQuestion qs s))) (currentQuestionIndex s) =
             Some (trim (transcript s))
         \<and> snapshotsRef (fst (handleNextQuestion qs s)) = snapshotsRef s
         \<and> malpracticeLogsRef (fst (handleNextQuestion qs s)) = malpracticeLogsRef s)"
proof -
  have "index_invariant qs (interview_run qs es (Interview_initial supported))"
    using assms by (simp add: index_invariant_run index_invariant_initial)
  then have run: "currentQuestionIndex (interview_run qs es (Interview_initial supported)) < length qs"
    by (simp add: index_invariant_def)
  have init: "currentQuestionIndex (Interview_initial supported) = 0"
    by (simp add: Interview_initial_def)
  have lt: "currentQuestionIndex s < length qs - 1 \<longrightarrow>
         currentQuestionIndex (fst (handleNextQuestion qs s)) = currentQuestionIndex s + 1
         \<and> snd (handleNextQuestion qs s) = None"
    by (auto simp: handleNextQuestion_def handleNextQuestion_resume_def Let_def)
  have eq: "currentQuestionIndex s = length qs - 1 \<longrightarrow>
         currentQuestionIndex (fst (handleNextQuestion qs s)) = currentQuestionIndex s
         \<and> snd (handleNextQuestion qs s) =
             Some (answersRef (fst (handleNextQuestion qs s)),
                   snapshotsRef (fst (handleNextQuestion qs s)),
                   malpracticeLogsRef (fst (handleNextQuestion qs s)))
         \<and> array_get (answersRef (fst (handleNextQuestion qs s))) (currentQuestionIndex s) =
             Some (trim (transcript s))
         \<and> snapshotsRef (fst (handleNextQuestion qs s)) = snapshotsRef s
         \<and> malpracticeLogsRef (fst (handleNextQuestion qs s)) = malpracticeLogsRef s"
  proof
    assume last: "currentQuestionIndex s = length qs - 1"
    then have "\<not> int (currentQuestionIndex s) < int (length qs) - 1"
      using assms by (cases qs) auto
    then have fin: "handleNextQuestion qs s =
        ((handleNextQuestion_begin s)\<lparr>transcript := [], isProcessing := False\<rparr>,
         Some (answersRef (handleNextQuestion_begin s), snapshotsRef (handleNextQuestion_begin s),
               malpracticeLogsRef (handleNextQuestion_begin s)))"
      by (simp add: handleNextQuestion_def handleNextQuestion_resume_def Let_def)
    have "array_get (answersRef (handleNextQuestion_begin s)) (currentQuestionIndex s) =
        Some (trim (transcript s))"
      by (simp add: handleNextQuestion_begin_def Let_def array_get_set)
    with fin show "currentQuestionIndex (fst (handleNextQuestion qs s)) = currentQuestionIndex s
         \<and> snd (handleNextQuestion qs s) =
             Some (answersRef (fst (handleNextQuestion qs s)),
                   snapshotsRef (fst (handleNextQuestion qs s)),
                   malpracticeLogsRef (fst (handleNextQuestion qs s)))
         \<and> array_get (answersRef (fst (handleNextQuestion qs s))) (currentQuestionIndex s) =
             Some (trim (transcript s))
         \<and> snapshotsRef (fst (handleNextQuestion qs s)) = snapshotsRef s
         \<and> malpracticeLogsRef (fst (handleNextQuestion qs s)) = malpracticeLogsRef s"
      by simp
  qed
  from init run lt eq show ?thesis by blast
qed

text \<open>
  Two questions: the first call moves to question 1, the second, at the last question,
  completes the interview with the two (empty) answers.
\<close>

theorem currentQuestionIndex_in_range_witness:
  "[lit ''Why this role?'', lit ''Describe a project.''] \<noteq> []
   \<and> currentQuestionIndex (interview_run [lit ''Why this role?'', lit ''Describe a project.'']
        [ClickNext, NextTimeout, ClickNext, NextTimeout, ClickNext, NextTimeout]
        (Interview_initial True)) = 1
   \<and> currentQuestionIndex (fst (handleNextQuestion
        [lit ''Why this role?'', lit ''Describe a project.''] (Interview_initial True))) = 1
   \<and> snd (handleNextQuestion
        [lit ''Why this role?'', lit ''Describe a project.''] (Interview_initial True)) = None
   \<and> currentQuestionIndex (fst (handleNextQuestion
        [lit ''Why this role?'', lit ''Describe a project.'']
        (fst (handleNextQuestion
           [lit ''Why this role?'', lit ''Describe a project.''] (Interview_initial True))))) = 1
   \<and> snd (handleNextQuestion
        [lit ''Why this role?'', lit ''Describe a project.'']
        (fst (handleNextQuestion
           [lit ''Why this role?'', lit ''Describe a project.''] (Interview_initial True)))) =
       Some ([Some [], Some []], [], [])"
proof -
  let ?qs = "[lit ''Why this role?'', lit ''Describe a project.'']"
  let ?s0 = "Interview_initial True"
  let ?s1 = "fst (handleNextQuestion ?qs ?s0)"
  have ne: "?qs \<noteq> []"
    by simp
  have i0: "currentQuestionIndex ?s0 < length ?qs - 1"
    by (simp add: Interview_initial_def)
  have first: "currentQuestionIndex ?s1 = 1" "snd (handleNextQuestion ?qs ?s0) = None"
    using currentQuestionIndex_in_range [OF ne, of True "[]" ?s0] i0
    by (simp_all add: Interview_initial_def)
  have i1: "currentQuestionIndex ?s1 = length ?qs - 1"
    using first by simp
  have refs: "answersRef (fst (handleNextQuestion ?qs ?s1)) = [Some [], Some []]"
    "snapshotsRef (fst (handleNextQuestion ?qs ?s1)) = []"
    "malpracticeLogsRef (fst (handleNextQuestion ?qs ?s1)) = []"
    by (simp_all add: Interview_initial_def handleNextQuestion_def handleNextQuestion_begin_def
        handleNextQuestion_resume_def Let_def effect_cleanup_def recognition_stop_def
        clear_if_set_def array_set_def trim_def)
  have second: "currentQuestionIndex (fst (handleNextQuestion ?qs ?s1)) = 1"
    "snd (handleNextQuestion ?qs ?s1) = Some ([Some [], Some []], [], [])"
    using currentQuestionIndex_in_range [OF ne, of True "[]" ?s1] i1 first refs
    by simp_all
  have run: "currentQuestionIndex (interview_run ?qs
        [ClickNext, NextTimeout, ClickNext, NextTimeout, ClickNext, NextTimeout] ?s0) = 1"
    by (simp add: Interview_initial_def handleNextQuestion_begin_def
        handleNextQuestion_resume_def Let_def effect_cleanup_def recognition_stop_def
        clear_if_set_def array_set_def trim_def)
  from ne run first second show ?thesis
    by simp
qed

text \<open>
  C10. The system instruction assembled by \<open>handleInterviewComplete\<close> is the base
  evaluation instruction followed by the malpractice-analysis text, which ends with
  the JSON-serialized malpractice logs, if at least one question's malpractice log
  list is non-empty, and by the empty string otherwise; the appended text is
  non-empty exactly in the first case. It is the system instruction of the request
  that is sent.
\<close>

theorem systemInstruction_malpractice_text:
  "systemInstruction pf c logs =
     evaluation_instruction c
       @ (if (\<exists>l \<in> set (object_values logs). l \<noteq> [])
          then lit ''\<newline>\<newline>Additionally, analyze the following malpractice logs. The candidate was alerted in real-time. Factor any detected malpractice into the overall evaluation, particularly in the 'Weaknesses' and 'Overall Score' sections.\<newline>Malpractice Logs:\<newline>''
                 @ JSON_stringify pf logs
          else [])
   \<and> ((\<exists>l \<in> set (object_values logs). l \<noteq> []) \<longleftrightarrow> malpracticeLogText pf logs \<noteq> [])
   \<and> (handleInterviewComplete_sent pf ans snaps logs app = Some req \<longrightarrow>
        (\<exists>s. session app = Some s
           \<and> request_systemInstruction req = Some (systemInstruction pf (config s) logs)))"
  by (auto simp: systemInstruction_def malpracticeLogText_def list_ex_iff
      handleInterviewComplete_sent_def handleInterviewComplete_request_def
      split: option.splits sum.splits)

text \<open>
  The example application with a log for question 0 and none for question 1, and with
  empty logs for both.
\<close>

theorem systemInstruction_malpractice_text_witness:
  "\<forall>pf.
     handleInterviewComplete_sent pf [] [] [(0, [lit ''Phone visible.'']), (1, [])] example_app
       \<noteq> None
     \<and> map_option request_systemInstruction
         (handleInterviewComplete_sent pf [] [] [(0, [lit ''Phone visible.'']), (1, [])]
            example_app) =
       Some (Some (evaluation_instruction
                     \<lparr>role = lit ''Software Engineer'', difficulty = lit ''Medium''\<rparr>
          @ lit ''\<newline>\<newline>Additionally, analyze the following malpractice logs. The candidate was alerted in real-time. Factor any detected malpractice into the overall evaluation, particularly in the 'Weaknesses' and 'Overall Score' sections.\<newline>Malpractice Logs:\<newline>''
          @ JSON_stringify pf [(0, [lit ''Phone visible.'']), (1, [])]))
     \<and> map_option request_systemInstruction
         (handleInterviewComplete_sent pf [] [] [(0, []), (1, [])] example_app) =
       Some (Some (evaluation_instruction
                     \<lparr>role = lit ''Software Engineer'', difficulty = lit ''Medium''\<rparr>))"
proof (intro allI)
  fix pf
  let ?logs = "[(0::nat, [lit ''Phone visible.'']), (1, [])]"
  let ?none = "[(0::nat, []::js_string list), (1, [])]"
  let ?c = "\<lparr>role = lit ''Software Engineer'', difficulty = lit ''Medium''\<rparr>"
  have sent: "handleInterviewComplete_sent pf [] [] logs example_app \<noteq> None" for logs
    by (simp add: example_app_eq example_questions_def handleInterviewComplete_sent_def
        handleInterviewComplete_request_def evaluation_parts_def question_text_def)
  obtain req where req: "handleInterviewComplete_sent pf [] [] ?logs example_app = Some req"
    using sent [of ?logs] by blast
  obtain req' where req': "handleInterviewComplete_sent pf [] [] ?none example_app = Some req'"
    using sent [of ?none] by blast
  have c: "session example_app = Some s \<Longrightarrow> config s = ?c" for s
    by (auto simp: example_app_eq)
  have a: "request_systemInstruction req = Some (systemInstruction pf ?c ?logs)"
  proof -
    from req conjunct2 [OF conjunct2 [OF systemInstruction_malpractice_text
        [of pf _ ?logs "[]" "[]" example_app req]]]
    obtain s where s: "session example_app = Some s"
      and r: "request_systemInstruction req = Some (systemInstruction pf (config s) ?logs)"
      by blast
    from c [OF s] r show ?thesis by (simp only:)
  qed
  have b: "request_systemInstruction req' = Some (systemInstruction pf ?c ?none)"
  proof -
    from req' conjunct2 [OF conjunct2 [OF systemInstruction_malpractice_text
        [of pf _ ?none "[]" "[]" example_app req']]]
    obtain s where s: "session example_app = Some s"
      and r: "request_systemInstruction req' = Some (systemInstruction pf (config s) ?none)"
      by blast
    from c [OF s] r show ?thesis by (simp only:)
  qed
  have some: "\<exists>l \<in> set (object_values ?logs). l \<noteq> []"
    by (simp add: object_values_def)
  have a': "systemInstruction pf ?c ?logs =
      evaluation_instruction ?c
          @ lit ''\<newline>\<newline>Additionally, analyze the following malpractice logs. The candidate was alerted in real-time. Factor any detected malpractice into the overall evaluation, particularly in the 'Weaknesses' and 'Overall Score' sections.\<newline>Malpractice Logs:\<newline>''
          @ JSON_stringify pf ?logs"
    using conjunct1 [OF systemInstruction_malpractice_text [of pf ?c ?logs]]
    by (simp only: some if_True)
  have no: "\<not> (\<exists>l \<in> set (object_values ?none). l \<noteq> [])"
    by (simp add: object_values_def)
  have b': "systemInstruction pf ?c ?none = evaluation_instruction ?c"
    using conjunct1 [OF systemInstruction_malpractice_text [of pf ?c ?none]]
    by (simp only: no if_False append_Nil2)
  from sent [of ?logs] show
    "handleInterviewComplete_sent pf [] [] ?logs example_app \<noteq> None
     \<and> map_option request_systemInstruction
         (handleInterviewComplete_sent pf [] [] ?logs example_app) =
       Some (Some (evaluation_instruction ?c
          @ lit ''\<newline>\<newline>Additionally, analyze the following malpractice logs. The candidate was alerted in real-time. Factor any detected malpractice into the overall evaluation, particularly in the 'Weaknesses' and 'Overall Score' sections.\<newline>Malpractice Logs:\<newline>''
          @ JSON_stringify pf ?logs))
     \<and> map_option request_systemInstruction
         (handleInterviewComplete_sent pf [] [] ?none example_app) =
       Some (Some (evaluation_instruction ?c))"
    by (simp only: req req' a b a' b' option.map option.simps not_False_eq_True simp_thms)
qed

subsection \<open>Further properties\<close>

text \<open>
  X1. As long as no recognition error other than \<open>'no-speech'\<close> has occurred, an
  interval that fires appends a snapshot only while \<open>isRecording\<close> is true.
\<close>

theorem snapshots_only_while_recording:
  assumes "list_all benign es"
    and "snapshotsRef (interview_run qs (es @ [IntervalFires h capture]) (Interview_initial b))
           \<noteq> snapshotsRef (interview_run qs es (Interview_initial b))"
  shows "isRecording (interview_run qs es (Interview_initial b))"
proof -
  let ?s = "interview_run qs es (Interview_initial b)"
  have inv: "recording_invariant ?s"
    using assms(1) by (simp add: recording_invariant_run recording_invariant_initial)
  from assms(2) have "snapshotsRef (interval_fires h capture ?s) \<noteq> snapshotsRef ?s"
    by (simp add: interview_run_append)
  then have "h \<in> set (capture_handles (intervals ?s))"
    by (rule interval_fires_changes)
  with inv show ?thesis
    by (auto simp: recording_invariant_def)
qed

theorem snapshots_only_while_recording_witness:
  "list_all benign [ClickRecord, SpeechError (lit ''no-speech'')]
   \<and> snapshotsRef (interview_run [lit ''Why this role?'']
        ([ClickRecord, SpeechError (lit ''no-speech'')] @ [IntervalFires 1 (Some (lit ''AAAA''))])
        (Interview_initial True))
       \<noteq> snapshotsRef (interview_run [lit ''Why this role?'']
            [ClickRecord, SpeechError (lit ''no-speech'')] (Interview_initial True))
   \<and> isRecording (interview_run [lit ''Why this role?'']
        [ClickRecord, SpeechError (lit ''no-speech'')] (Interview_initial True))"
proof -
  have a: "list_all benign [ClickRecord, SpeechError (lit ''no-speech'')]"
    by (simp add: benign_def)
  have b: "snapshotsRef (interview_run [lit ''Why this role?'']
        ([ClickRecord, SpeechError (lit ''no-speech'')] @ [IntervalFires 1 (Some (lit ''AAAA''))])
        (Interview_initial True))
       \<noteq> snapshotsRef (interview_run [lit ''Why this role?'']
            [ClickRecord, SpeechError (lit ''no-speech'')] (Interview_initial True))"
    by (simp add: Interview_initial_def handleToggleRecording_def Let_def recognition_start_def
        setInterval_def onerror_def interval_fires_def captureSnapshot_def object_get_def)
  from a b snapshots_only_while_recording [OF a b] show ?thesis
    by blast
qed

text \<open>
  X2. Starting to record installs an interval of 5000 ms that runs \<open>captureSnapshot\<close>
  for the current question and keeps its handle in \<open>snapshotIntervalRef\<close>; stopping
  clears the interval of that handle and empties the ref.
\<close>

theorem toggle_installs_and_clears_interval:
  "(\<not> isRecording s \<and> nextHandle s \<notin> fst ` set (intervals s) \<longrightarrow>
      isRecording (handleToggleRecording s)
      \<and> snapshotIntervalRef (handleToggleRecording s) = Some (nextHandle s)
      \<and> map_of (intervals (handleToggleRecording s)) (nextHandle s) =
          Some \<lparr>callback = CaptureSnapshot (currentQuestionIndex s), delay = 5000\<rparr>)
   \<and> (isRecording s \<and> snapshotIntervalRef s = Some h \<and> h \<noteq> 0 \<longrightarrow>
        \<not> isRecording (handleToggleRecording s)
        \<and> snapshotIntervalRef (handleToggleRecording s) = None
        \<and> map_of (intervals (handleToggleRecording s)) h = None)"
proof (intro conjI impI)
  assume a: "\<not> isRecording s \<and> nextHandle s \<notin> fst ` set (intervals s)"
  then have none: "map_of (intervals s) (nextHandle s) = None"
    by (simp add: map_of_eq_None_iff)
  from a show "isRecording (handleToggleRecording s)"
    by simp
  from a show "snapshotIntervalRef (handleToggleRecording s) = Some (nextHandle s)"
    by (simp add: handleToggleRecording_def Let_def setInterval_def recognition_start_def)
  from a none show "map_of (intervals (handleToggleRecording s)) (nextHandle s) =
          Some \<lparr>callback = CaptureSnapshot (currentQuestionIndex s), delay = 5000\<rparr>"
    by (simp add: handleToggleRecording_def Let_def setInterval_def recognition_start_def
        map_add_def)
next
  assume a: "isRecording s \<and> snapshotIntervalRef s = Some h \<and> h \<noteq> 0"
  then show "\<not> isRecording (handleToggleRecording s)"
    by simp
  from a show "snapshotIntervalRef (handleToggleRecording s) = None"
    by (simp add: handleToggleRecording_def Let_def)
  let ?s1 = "(recognition_stop s)\<lparr>isRecording := False\<rparr>"
  let ?s2 = "clear_if_set (Some h) ?s1"
  have "h \<notin> fst ` set (intervals ?s2)"
    using a by (auto simp: clear_if_set_def clearInterval_def)
  then have "h \<notin> fst ` set (intervals (clear_if_set (malpracticeCheckIntervalRef ?s2) ?s2))"
    by (auto simp: clear_if_set_def clearInterval_def split: option.splits)
  then have "map_of (intervals (clear_if_set (malpracticeCheckIntervalRef ?s2) ?s2)) h = None"
    by (simp add: map_of_eq_None_iff)
  with a show "map_of (intervals (handleToggleRecording s)) h = None"
    by (simp add: handleToggleRecording_def Let_def recognition_stop_def)
qed

theorem toggle_installs_and_clears_interval_witness:
  "\<not> isRecording (Interview_initial True)
   \<and> nextHandle (Interview_initial True) \<notin> fst ` set (intervals (Interview_initial True))
   \<and> snapshotIntervalRef (handleToggleRecording (Interview_initial True)) = Some 1
   \<and> map_of (intervals (handleToggleRecording (Interview_initial True))) 1 =
       Some \<lparr>callback = CaptureSnapshot 0, delay = 5000\<rparr>
   \<and> isRecording (handleToggleRecording (Interview_initial True))
   \<and> snapshotIntervalRef (handleToggleRecording (handleToggleRecording (Interview_initial True)))
       = None
   \<and> map_of (intervals (handleToggleRecording (handleToggleRecording (Interview_initial True))))
       1 = None"
proof -
  let ?s0 = "Interview_initial True"
  have pre: "\<not> isRecording ?s0 \<and> nextHandle ?s0 \<notin> fst ` set (intervals ?s0)"
    by (simp add: Interview_initial_def)
  have n: "nextHandle ?s0 = 1" "currentQuestionIndex ?s0 = 0"
    by (simp_all add: Interview_initial_def)
  from toggle_installs_and_clears_interval [of ?s0] pre n
  have on: "isRecording (handleToggleRecording ?s0)"
    "snapshotIntervalRef (handleToggleRecording ?s0) = Some 1"
    "map_of (intervals (handleToggleRecording ?s0)) 1 =
       Some \<lparr>callback = CaptureSnapshot 0, delay = 5000\<rparr>"
    by simp_all
  from toggle_installs_and_clears_interval [of "handleToggleRecording ?s0" 1] on
  have off: "snapshotIntervalRef (handleToggleRecording (handleToggleRecording ?s0)) = None"
    "map_of (intervals (handleToggleRecording (handleToggleRecording ?s0))) 1 = None"
    by simp_all
  from pre on off show ?thesis
    by simp
qed

text \<open>
  X3. \<open>handleTryAgain\<close> clears the session and the error and returns to \<open>'HOME'\<close>, where
  the Home screen is rendered without an error.
\<close>

theorem handleTryAgain_resets:
  "session (handleTryAgain app) = None
   \<and> error (handleTryAgain app) = None
   \<and> appState (handleTryAgain app) = HOME
   \<and> renderContent (handleTryAgain app) = HomeView None"
  by (simp add: handleTryAgain_def renderContent_def)

text \<open>
  X4. Without a session \<open>handleInterviewComplete\<close> changes nothing and sends no
  request. With a session whose \<open>questions\<close> is not an array, the call of \<open>forEach\<close>
  throws before the \<open>try\<close>: no request is sent, and the application stays in
  \<open>'LOADING'\<close> with no error set.
\<close>

theorem handleInterviewComplete_without_request:
  "(session app = None \<longrightarrow>
      handleInterviewComplete pf ans snaps logs outcome app = app
      \<and> handleInterviewComplete_sent pf ans snaps logs app = None)
   \<and> (session app = Some s \<and> (\<forall>qs. questions s \<noteq> JArr qs) \<longrightarrow>
        handleInterviewComplete_sent pf ans snaps logs app = None
        \<and> appState (handleInterviewComplete pf ans snaps logs outcome app) = LOADING
        \<and> error (handleInterviewComplete pf ans snaps logs outcome app) = None
        \<and> session (handleInterviewComplete pf ans snaps logs outcome app) = session app)"
  by (cases "questions s")
     (auto simp: handleInterviewComplete_def handleInterviewComplete_sent_def
       handleInterviewComplete_request_def evaluation_parts_def handleInterviewComplete_begin_def)

theorem handleInterviewComplete_without_request_witness:
  "\<forall>pf outcome.
     session App_initial = None
     \<and> handleInterviewComplete pf [] [] [] outcome App_initial = App_initial
     \<and> appState (handleInterviewComplete pf [] [] [] outcome
          (startInterview (handleSubmit Home_initial)
             (TextParses (JObj [(lit ''questions'', JBool True)])) App_initial)) = LOADING
     \<and> error (handleInterviewComplete pf [] [] [] outcome
          (startInterview (handleSubmit Home_initial)
             (TextParses (JObj [(lit ''questions'', JBool True)])) App_initial)) = None"
proof (intro allI)
  fix pf outcome
  let ?app = "startInterview (handleSubmit Home_initial)
             (TextParses (JObj [(lit ''questions'', JBool True)])) App_initial"
  let ?s = "\<lparr>config = handleSubmit Home_initial, questions = JBool True, answers = [],
             snapshots = [], malpracticeLogs = Some [], evaluation = None\<rparr>"
  have none: "session App_initial = None"
    by (simp add: App_initial_def)
  have s: "session ?app = Some ?s \<and> (\<forall>qs. questions ?s \<noteq> JArr qs)"
    by (simp add: startInterview_def startInterview_resume_def startInterview_begin_def
        App_initial_def)
  from none s
    handleInterviewComplete_without_request [of App_initial pf "[]" "[]" "[]" outcome]
    handleInterviewComplete_without_request [of ?app pf "[]" "[]" "[]" outcome ?s]
  show "session App_initial = None
     \<and> handleInterviewComplete pf [] [] [] outcome App_initial = App_initial
     \<and> appState (handleInterviewComplete pf [] [] [] outcome ?app) = LOADING
     \<and> error (handleInterviewComplete pf [] [] [] outcome ?app) = None"
    by blast
qed

end
